theory Spec2Isabelle
  imports Main
begin

section \<open>Python text as the window-lookup code sees it\<close>

text \<open>
  The three programs (\<^verbatim>\<open>tray_wrapper\<close>, \<^verbatim>\<open>minimize_to_tray_wrapper\<close>, \<^verbatim>\<open>multi_app_tray\<close>)
  read the output of \<^verbatim>\<open>wmctrl\<close> as a Python \<^verbatim>\<open>str\<close> and take it apart with
  \<^verbatim>\<open>splitlines\<close>, \<^verbatim>\<open>split(None, n)\<close>, \<^verbatim>\<open>isdigit\<close>, \<^verbatim>\<open>int\<close> and \<^verbatim>\<open>in\<close>.
  A \<^verbatim>\<open>str\<close> is a sequence of code points. It is modelled as a \<^typ>\<open>string\<close> whose
  characters stand for the code points U+0000 to U+00FF; \<^term>\<open>ord c\<close> is the code point.
  Text with code points above U+00FF is outside the model.
\<close>

definition ord :: "char \<Rightarrow> nat" where
  "ord c = of_char c"

text \<open>\<^verbatim>\<open>str.isspace\<close> on one character: the characters \<^verbatim>\<open>str.split(None)\<close> separates at.\<close>

definition isspace :: "char \<Rightarrow> bool" where
  "isspace c \<longleftrightarrow> ord c \<in> {9, 10, 11, 12, 13, 28, 29, 30, 31, 32, 133, 160}"

text \<open>The line boundaries of \<^verbatim>\<open>str.splitlines\<close> (U+2028 and U+2029 lie outside the model).\<close>

definition is_linebreak :: "char \<Rightarrow> bool" where
  "is_linebreak c \<longleftrightarrow> ord c \<in> {10, 11, 12, 13, 28, 29, 30, 133}"

text \<open>
  \<^verbatim>\<open>str.splitlines()\<close>: lines without their terminators; \<^verbatim>\<open>\r\n\<close> is one terminator;
  text after the last terminator is a line only when it is not empty. The first argument
  holds the characters of the current line, last one first.
\<close>

fun splitlines_from :: "string \<Rightarrow> string \<Rightarrow> string list" where
  "splitlines_from cur [] = (if cur = [] then [] else [rev cur])"
| "splitlines_from cur (c # cs) =
     (if is_linebreak c then
        (if ord c = 13 \<and> cs \<noteq> [] \<and> ord (hd cs) = 10
         then rev cur # splitlines_from [] (tl cs)
         else rev cur # splitlines_from [] cs)
      else splitlines_from (c # cur) cs)"

definition splitlines :: "string \<Rightarrow> string list" where
  "splitlines s = splitlines_from [] s"

text \<open>
  \<^verbatim>\<open>s.split(None, maxsplit)\<close>: runs of whitespace separate the fields, leading whitespace
  is dropped, and once \<^verbatim>\<open>maxsplit\<close> fields are cut off the rest of the text (without its
  leading whitespace, with its trailing whitespace) is the last field.
\<close>

fun split_ws :: "nat \<Rightarrow> string \<Rightarrow> string list" where
  "split_ws 0 s =
     (let r = dropWhile isspace s in if r = [] then [] else [r])"
| "split_ws (Suc k) s =
     (let r = dropWhile isspace s in
      if r = [] then []
      else takeWhile (\<lambda>c. \<not> isspace c) r # split_ws k (dropWhile (\<lambda>c. \<not> isspace c) r))"

text \<open>
  \<^verbatim>\<open>str.isdigit()\<close>: not empty, and every character a digit. Below U+0100 the digits are
  \<^verbatim>\<open>0\<close> to \<^verbatim>\<open>9\<close> and the superscripts U+00B2, U+00B3 and U+00B9, which are digits
  but not decimal characters.
\<close>

definition is_decimal_char :: "char \<Rightarrow> bool" where
  "is_decimal_char c \<longleftrightarrow> 48 \<le> ord c \<and> ord c \<le> 57"

definition isdigit_char :: "char \<Rightarrow> bool" where
  "isdigit_char c \<longleftrightarrow> is_decimal_char c \<or> ord c \<in> {178, 179, 185}"

definition isdigit :: "string \<Rightarrow> bool" where
  "isdigit s \<longleftrightarrow> s \<noteq> [] \<and> list_all isdigit_char s"

text \<open>\<^verbatim>\<open>needle in haystack\<close> on strings: the needle occurs as a contiguous run.\<close>

fun startswith :: "string \<Rightarrow> string \<Rightarrow> bool" where
  "startswith s [] = True"
| "startswith [] (p # ps) = False"
| "startswith (c # cs) (p # ps) = (c = p \<and> startswith cs ps)"

fun str_contains :: "string \<Rightarrow> string \<Rightarrow> bool" where
  "str_contains [] p = (p = [])"
| "str_contains (c # cs) p = (startswith (c # cs) p \<or> str_contains cs p)"

subsection \<open>The integer constructor\<close>

datatype os_error = FileNotFound | PermissionDenied | OtherOSError

datatype exn =
    OSError os_error
  | CalledProcessError int
  | TimeoutExpired
  | ValueError
  | UnicodeDecodeError
  | DisplayError

text \<open>
  \<^verbatim>\<open>int(s, base)\<close> for a string: whitespace is stripped at both ends (for \<^verbatim>\<open>int\<close> that is
  tab, line feed, vertical tab, form feed, carriage return, space, U+0085 and U+00A0, not
  U+001C to U+001F); then an optional sign; for base 16 an optional \<^verbatim>\<open>0x\<close> or \<^verbatim>\<open>0X\<close>,
  which one underscore may follow; then digits of the base, single underscores allowed
  between two digits. Anything else raises \<^verbatim>\<open>ValueError\<close>.
\<close>

definition int_space :: "char \<Rightarrow> bool" where
  "int_space c \<longleftrightarrow> ord c \<in> {9, 10, 11, 12, 13, 32, 133, 160}"

definition digit_value :: "char \<Rightarrow> nat option" where
  "digit_value c =
     (let n = ord c in
      if 48 \<le> n \<and> n \<le> 57 then Some (n - 48)
      else if 97 \<le> n \<and> n \<le> 122 then Some (n - 87)
      else if 65 \<le> n \<and> n \<le> 90 then Some (n - 55)
      else None)"

text \<open>
  The digits after sign and prefix; the result is the value and the number of digits read.
  Each call expects a digit next, so an underscore at the start, at the end or after another
  underscore is refused.
\<close>

fun scan_digits :: "nat \<Rightarrow> nat \<Rightarrow> nat \<Rightarrow> string \<Rightarrow> (nat \<times> nat) option" where
  "scan_digits b acc n [] = None"
| "scan_digits b acc n (c # cs) =
     (case digit_value c of
        None \<Rightarrow> None
      | Some d \<Rightarrow>
          if d < b then
            (case cs of
               [] \<Rightarrow> Some (acc * b + d, Suc n)
             | c' # cs' \<Rightarrow>
                 if ord c' = 95 then scan_digits b (acc * b + d) (Suc n) cs'
                 else scan_digits b (acc * b + d) (Suc n) cs)
          else None)"

definition strip_int :: "string \<Rightarrow> string" where
  "strip_int s = rev (dropWhile int_space (rev (dropWhile int_space s)))"

definition drop_prefix16 :: "string \<Rightarrow> string" where
  "drop_prefix16 s =
     (case s of
        z # x # r \<Rightarrow>
          if ord z = 48 \<and> (ord x = 120 \<or> ord x = 88)
          then (case r of u # r' \<Rightarrow> if ord u = 95 then r' else r | [] \<Rightarrow> r)
          else s
      | _ \<Rightarrow> s)"

definition unsigned_literal :: "nat \<Rightarrow> string \<Rightarrow> (nat \<times> nat) option" where
  "unsigned_literal b s = scan_digits b 0 0 (if b = 16 then drop_prefix16 s else s)"

definition int_literal :: "nat \<Rightarrow> string \<Rightarrow> (int \<times> nat) option" where
  "int_literal b s =
     (case strip_int s of
        [] \<Rightarrow> None
      | c # cs \<Rightarrow>
          if ord c = 45 then map_option (\<lambda>(v, n). (- int v, n)) (unsigned_literal b cs)
          else if ord c = 43 then map_option (\<lambda>(v, n). (int v, n)) (unsigned_literal b cs)
          else map_option (\<lambda>(v, n). (int v, n)) (unsigned_literal b (c # cs)))"

text \<open>
  \<^verbatim>\<open>int(s)\<close>, base 10. The interpreter refuses a literal of more than
  \<^verbatim>\<open>sys.get_int_max_str_digits()\<close> digits (4300 unless configured; 0 switches the check
  off, as in interpreters that do not have it); that setting is the first argument.
\<close>

definition int10 :: "nat \<Rightarrow> string \<Rightarrow> exn + int" where
  "int10 lim s =
     (case int_literal 10 s of
        None \<Rightarrow> Inl ValueError
      | Some (v, n) \<Rightarrow> if 0 < lim \<and> lim < n then Inl ValueError else Inr v)"

text \<open>\<^verbatim>\<open>int(s, 16)\<close>; the digit limit does not apply to a base that is a power of two.\<close>

definition int16 :: "string \<Rightarrow> exn + int" where
  "int16 s = (case int_literal 16 s of None \<Rightarrow> Inl ValueError | Some (v, n) \<Rightarrow> Inr v)"

section \<open>The outside world\<close>

text \<open>
  Every call that leaves the program is recorded as an \<open>event\<close>, in the order the
  calls are made; a call is recorded also when it raises. What the world answers is not
  decided by the program, so each method takes an \<open>env\<close>: one answer for every
  call the method can make while it runs once.

  A call can raise where the library documents an exception or the source has a handler
  for one: \<^verbatim>\<open>Popen\<close>, \<^verbatim>\<open>subprocess.run\<close> and \<^verbatim>\<open>check_output\<close> (the program is
  missing, or exits with a code other than 0 where the exit code is checked),
  the Xlib calls of \<^verbatim>\<open>unmap_window\<close>, \<^verbatim>\<open>terminate\<close>, \<^verbatim>\<open>wait\<close> and \<^verbatim>\<open>kill\<close>
  (\<^verbatim>\<open>terminate\<close> and \<^verbatim>\<open>kill\<close> both send a signal and fail in the same ways).
  \<^verbatim>\<open>print\<close>, \<^verbatim>\<open>time.sleep\<close>, \<^verbatim>\<open>poll\<close> and \<^verbatim>\<open>Gtk.main_quit\<close> are taken to
  return. All exceptions of the model are subclasses of \<^verbatim>\<open>Exception\<close>,
  so \<^verbatim>\<open>except Exception\<close> catches each of them.
\<close>

datatype xdo = windowminimize | windowmap | windowactivate_sync

datatype event =
    Popen "string list"
  | Sleep nat
  | CheckOutput "string list"
  | Run xdo "int option"
  | XUnmap "int option"
  | Poll int
  | Terminate int
  | Wait int nat
  | Kill int
  | MainQuit
  | Print string "exn option"

datatype wait_result = Exited | TimedOut | WaitRaised os_error

text \<open>
  Durations of \<open>Sleep\<close> and \<open>Wait\<close> are in milliseconds. \<open>Run c w\<close> is
  \<^verbatim>\<open>subprocess.run(["xdotool", c, str(w)])\<close> (with \<^verbatim>\<open>--sync\<close> before the handle for
  \<open>windowactivate_sync\<close>); \<open>XUnmap w\<close> stands for the four Xlib calls of
  \<^verbatim>\<open>unmap_window\<close>. The answer to a \<^verbatim>\<open>subprocess.run\<close> is the exception raised when
  the program cannot be started, or the exit code.
\<close>

record env =
  max_str_digits :: nat
  running :: bool
  popen :: "exn + int"
  wmctrl :: "exn + string"
  xdotool_minimize :: "exn + int"
  xdotool_map :: "exn + int"
  xdotool_activate :: "exn + int"
  xdotool_map_again :: "exn + int"
  xdotool_activate_again :: "exn + int"
  xlib_unmap :: "exn option"
  terminate :: "os_error option"
  wait :: wait_result
  kill :: "os_error option"

text \<open>
  \<open>running\<close> answers \<^verbatim>\<open>process.poll() is None\<close>. \<open>xdotool_map_again\<close> and
  \<open>xdotool_activate_again\<close> answer the second pair of calls in \<^verbatim>\<open>on_show_app\<close> of
  \<^verbatim>\<open>multi_app_tray\<close>; the other programs make one call of each kind.
\<close>

text \<open>The truth value of \<^verbatim>\<open>window_id\<close> in a condition: \<^verbatim>\<open>None\<close> and 0 are false.\<close>

definition truthy :: "int option \<Rightarrow> bool" where
  "truthy w = (case w of None \<Rightarrow> False | Some h \<Rightarrow> h \<noteq> 0)"

section \<open>Window lookup\<close>

text \<open>
  The loop of \<^verbatim>\<open>find_window_by_pid\<close> over the lines, inside the \<^verbatim>\<open>try\<close>:
  \<open>Inr r\<close> is what the loop returns (\<open>None\<close> when it runs to the end), \<open>Inl e\<close>
  an exception raised by \<^verbatim>\<open>int\<close>.
\<close>

fun scan_pid :: "nat \<Rightarrow> int \<Rightarrow> string list \<Rightarrow> exn + int option" where
  "scan_pid lim pid [] = Inr None"
| "scan_pid lim pid (line # lines) =
     (let parts = split_ws 4 line in
      if 3 \<le> length parts then
        (let w_pid = parts ! 2 in
         if isdigit w_pid then
           (case int10 lim w_pid of
              Inl e \<Rightarrow> Inl e
            | Inr n \<Rightarrow>
                if n = pid then
                  (case int16 (parts ! 0) of Inl e \<Rightarrow> Inl e | Inr h \<Rightarrow> Inr (Some h))
                else scan_pid lim pid lines)
         else scan_pid lim pid lines)
      else scan_pid lim pid lines)"

text \<open>
  The loop of \<^verbatim>\<open>find_window_by_class\<close>. The least number of fields a line must have
  is 4 in \<^verbatim>\<open>tray_wrapper\<close> and 3 in \<^verbatim>\<open>multi_app_tray\<close>, the one difference between
  the two copies; it is the first argument.
\<close>

fun scan_class :: "nat \<Rightarrow> string \<Rightarrow> string list \<Rightarrow> exn + int option" where
  "scan_class least wm_class [] = Inr None"
| "scan_class least wm_class (line # lines) =
     (let parts = split_ws 5 line in
      if least \<le> length parts then
        (let w_class = parts ! 2 in
         if str_contains w_class wm_class then
           (case int16 (parts ! 0) of Inl e \<Rightarrow> Inl e | Inr h \<Rightarrow> Inr (Some h))
         else scan_class least wm_class lines)
      else scan_class least wm_class lines)"

definition wmctrl_lp :: "string list" where
  "wmctrl_lp = [''wmctrl'', ''-lp'']"

definition wmctrl_lx :: "string list" where
  "wmctrl_lx = [''wmctrl'', ''-lx'']"

text \<open>
  \<^verbatim>\<open>try: ... except Exception as e: print(...)\<close> followed by \<^verbatim>\<open>return None\<close>:
  the body is the call of the listing tool and then the loop.
\<close>

definition find_window_by_pid :: "env \<Rightarrow> int \<Rightarrow> event list \<times> int option" where
  "find_window_by_pid env pid =
     (case wmctrl env of
        Inl e \<Rightarrow>
          ([CheckOutput wmctrl_lp, Print ''Error finding window by pid'' (Some e)], None)
      | Inr output \<Rightarrow>
          (case scan_pid (max_str_digits env) pid (splitlines output) of
             Inl e \<Rightarrow>
               ([CheckOutput wmctrl_lp, Print ''Error finding window by pid'' (Some e)], None)
           | Inr r \<Rightarrow> ([CheckOutput wmctrl_lp], r)))"

definition find_window_by_class_least ::
  "nat \<Rightarrow> env \<Rightarrow> string \<Rightarrow> event list \<times> int option" where
  "find_window_by_class_least least env wm_class =
     (case wmctrl env of
        Inl e \<Rightarrow>
          ([CheckOutput wmctrl_lx, Print ''Error finding window by class'' (Some e)], None)
      | Inr output \<Rightarrow>
          (case scan_class least wm_class (splitlines output) of
             Inl e \<Rightarrow>
               ([CheckOutput wmctrl_lx, Print ''Error finding window by class'' (Some e)], None)
           | Inr r \<Rightarrow> ([CheckOutput wmctrl_lx], r)))"

text \<open>\<^verbatim>\<open>find_window_by_class\<close> of \<^verbatim>\<open>tray_wrapper\<close>.\<close>

definition find_window_by_class :: "env \<Rightarrow> string \<Rightarrow> event list \<times> int option" where
  "find_window_by_class = find_window_by_class_least 4"

text \<open>\<^verbatim>\<open>find_window_by_class\<close> of \<^verbatim>\<open>multi_app_tray\<close>.\<close>

definition multi_find_window_by_class :: "env \<Rightarrow> string \<Rightarrow> event list \<times> int option" where
  "multi_find_window_by_class = find_window_by_class_least 3"

section \<open>The single-application wrappers\<close>

text \<open>
  \<^verbatim>\<open>tray_wrapper\<close> and \<^verbatim>\<open>minimize_to_tray_wrapper\<close> are the same class
  \<^verbatim>\<open>AppIndicatorWrapper\<close> but for two points: \<^verbatim>\<open>minimize_to_tray_wrapper\<close> has no
  \<^verbatim>\<open>wm_class\<close> and always looks the window up by process id, and its poll loop sleeps
  1 s where \<^verbatim>\<open>tray_wrapper\<close> sleeps 5 s. One record models both; the field
  \<open>variant\<close> says which program it is. The \<^verbatim>\<open>Popen\<close> object in \<^verbatim>\<open>self.process\<close> is
  identified with the process id it holds.
\<close>

datatype variant = TrayWrapper | MinimizeToTray

record wrapper =
  variant :: variant
  cmd :: "string list"
  wm_class :: "string option"
  persist_on_exit :: bool
  first_launch :: bool
  process :: int
  pid :: int
  window_id :: "int option"

text \<open>\<^verbatim>\<open>find_window\<close> of \<^verbatim>\<open>tray_wrapper\<close>; an empty \<^verbatim>\<open>wm_class\<close> counts as none.\<close>

definition find_window :: "env \<Rightarrow> wrapper \<Rightarrow> event list \<times> int option" where
  "find_window env s =
     (case wm_class s of
        None \<Rightarrow> find_window_by_pid env (pid s)
      | Some c \<Rightarrow> if c \<noteq> [] then find_window_by_class env c else find_window_by_pid env (pid s))"

text \<open>The lookup that \<^verbatim>\<open>launch_process\<close> of each program calls.\<close>

definition lookup :: "env \<Rightarrow> wrapper \<Rightarrow> event list \<times> int option" where
  "lookup env s =
     (case variant s of
        TrayWrapper \<Rightarrow> find_window env s
      | MinimizeToTray \<Rightarrow> find_window_by_pid env (pid s))"

definition unmap_window :: "env \<Rightarrow> wrapper \<Rightarrow> event list \<times> wrapper" where
  "unmap_window env s =
     (case xlib_unmap env of
        None \<Rightarrow> ([XUnmap (window_id s)], s)
      | Some e \<Rightarrow> ([XUnmap (window_id s), Print ''Error unmapping window'' (Some e)], s))"

definition minimize_window :: "env \<Rightarrow> wrapper \<Rightarrow> event list \<times> wrapper" where
  "minimize_window env s =
     (if truthy (window_id s) then
        (case xdotool_minimize env of
           Inl e \<Rightarrow>
             ([Run windowminimize (window_id s), Print ''Error minimizing window'' (Some e)], s)
         | Inr rc \<Rightarrow>
             (let (es, s') = unmap_window env s
              in (Run windowminimize (window_id s) # es, s')))
      else ([], s))"

text \<open>
  \<^verbatim>\<open>launch_process\<close>. Only \<^verbatim>\<open>Popen\<close> can raise, before any field is written; the
  second component of the result is that exception.
\<close>

definition launch_process :: "env \<Rightarrow> wrapper \<Rightarrow> event list \<times> exn option \<times> wrapper" where
  "launch_process env s =
     (case popen env of
        Inl e \<Rightarrow> ([Popen (cmd s)], Some e, s)
      | Inr p \<Rightarrow>
          (let s1 = s\<lparr>process := p, pid := p\<rparr>;
               (es_find, w) = lookup env s1;
               s2 = s1\<lparr>window_id := w\<rparr>;
               (es_min, s3) =
                 (if first_launch s2 \<and> truthy (window_id s2) then minimize_window env s2
                  else ([], s2))
           in (Popen (cmd s) # Sleep 2000 # es_find @ es_min, None, s3\<lparr>first_launch := False\<rparr>)))"

text \<open>
  The constructor of \<^verbatim>\<open>minimize_to_tray_wrapper\<close> prints its \<^verbatim>\<open>name\<close> argument
  (\<^verbatim>\<open>print("HERE:",name)\<close>, where an argument left out is \<^verbatim>\<open>None\<close>) before it
  builds the indicator; the constructor of \<^verbatim>\<open>tray_wrapper\<close> prints nothing.
\<close>

definition greeting :: "variant \<Rightarrow> string option \<Rightarrow> event list" where
  "greeting v name =
     (case v of
        TrayWrapper \<Rightarrow> []
      | MinimizeToTray \<Rightarrow>
          [Print (''HERE: '' @ (case name of None \<Rightarrow> ''None'' | Some n \<Rightarrow> n)) None])"

text \<open>
  The part of \<^verbatim>\<open>__init__\<close> that is not the construction of indicator and menu: the
  greeting is printed, the fields are set, \<^verbatim>\<open>first_launch\<close> is set, and
  \<^verbatim>\<open>launch_process\<close> runs. The name and the icon are used for the indicator and the
  menu labels only and are no fields of the record. \<^verbatim>\<open>process\<close>, \<^verbatim>\<open>pid\<close> and
  \<^verbatim>\<open>window_id\<close> do not exist before the call of \<^verbatim>\<open>launch_process\<close>, which writes
  each before reading it; the values given to them here are never read. If \<^verbatim>\<open>Popen\<close>
  raises, so does the constructor and there is no object.
\<close>

definition init ::
  "variant \<Rightarrow> string list \<Rightarrow> string option \<Rightarrow> bool \<Rightarrow> string option \<Rightarrow> env \<Rightarrow>
   event list \<times> (exn + wrapper)" where
  "init v c name persist wmc env =
     (case launch_process env
             \<lparr>variant = v, cmd = c, wm_class = wmc, persist_on_exit = persist,
              first_launch = True, process = 0, pid = 0, window_id = None\<rparr> of
        (es, Some e, s) \<Rightarrow> (greeting v name @ es, Inl e)
      | (es, None, s) \<Rightarrow> (greeting v name @ es, Inr s))"

definition on_show :: "env \<Rightarrow> wrapper \<Rightarrow> event list \<times> exn option \<times> wrapper" where
  "on_show env s =
     (if \<not> running env then
        (let (es, x, s') = launch_process env s in (Poll (process s) # es, x, s'))
      else if truthy (window_id s) then
        (case xdotool_map env of
           Inl e \<Rightarrow>
             ([Poll (process s), Run windowmap (window_id s),
               Print ''Error showing window'' (Some e)], None, s)
         | Inr rc \<Rightarrow>
             (case xdotool_activate env of
                Inl e \<Rightarrow>
                  ([Poll (process s), Run windowmap (window_id s),
                    Run windowactivate_sync (window_id s),
                    Print ''Error showing window'' (Some e)], None, s)
              | Inr rc' \<Rightarrow>
                  ([Poll (process s), Run windowmap (window_id s),
                    Run windowactivate_sync (window_id s)], None, s)))
      else ([Poll (process s)], None, s))"

definition on_hide :: "env \<Rightarrow> wrapper \<Rightarrow> event list \<times> exn option \<times> wrapper" where
  "on_hide env s =
     (if running env \<and> truthy (window_id s) then
        (let (es, s') = minimize_window env s in (Poll (process s) # es, None, s'))
      else ([Poll (process s)], None, s))"

text \<open>
  \<^verbatim>\<open>on_quit\<close>. A \<^verbatim>\<open>Popen\<close> object is true in a condition, so \<^verbatim>\<open>self.process and ...\<close>
  comes down to the poll. \<^verbatim>\<open>kill\<close> is called in the handler of \<^verbatim>\<open>TimeoutExpired\<close>,
  outside the \<^verbatim>\<open>try\<close>: an exception it raises is caught by no handler and leaves
  \<^verbatim>\<open>on_quit\<close> before \<^verbatim>\<open>Gtk.main_quit()\<close>.
\<close>

definition on_quit :: "env \<Rightarrow> wrapper \<Rightarrow> event list \<times> exn option \<times> wrapper" where
  "on_quit env s =
     (if running env then
        (case terminate env of
           Some e \<Rightarrow>
             ([Poll (process s), Terminate (process s),
               Print ''Error while terminating process'' (Some (OSError e)), MainQuit], None, s)
         | None \<Rightarrow>
             (case wait env of
                Exited \<Rightarrow>
                  ([Poll (process s), Terminate (process s), Wait (process s) 5000,
                    MainQuit], None, s)
              | TimedOut \<Rightarrow>
                  (case kill env of
                     None \<Rightarrow>
                       ([Poll (process s), Terminate (process s), Wait (process s) 5000,
                         Print ''Process did not terminate in time; force killing it.'' None,
                         Kill (process s), MainQuit], None, s)
                   | Some e \<Rightarrow>
                       ([Poll (process s), Terminate (process s), Wait (process s) 5000,
                         Print ''Process did not terminate in time; force killing it.'' None,
                         Kill (process s)], Some (OSError e), s))
              | WaitRaised e \<Rightarrow>
                  ([Poll (process s), Terminate (process s), Wait (process s) 5000,
                    Print ''Error while terminating process'' (Some (OSError e)),
                    MainQuit], None, s)))
      else ([Poll (process s), MainQuit], None, s))"

text \<open>
  \<^verbatim>\<open>monitor_process\<close> is \<^verbatim>\<open>while True\<close>: it is meant to run as long as the wrapper
  does. The model runs it against a finite list of answers, one \<open>env\<close> for each pass
  through the loop, and reports where the loop stands when the answers are used up:
  still \<open>Looping\<close>, \<open>Returned\<close> through the \<^verbatim>\<open>return\<close>, or ended because
  \<^verbatim>\<open>launch_process\<close> \<open>Raised\<close>.
\<close>

datatype loop_state = Looping | Returned | Raised exn

definition poll_interval :: "wrapper \<Rightarrow> nat" where
  "poll_interval s = (case variant s of TrayWrapper \<Rightarrow> 5000 | MinimizeToTray \<Rightarrow> 1000)"

fun monitor_process :: "env list \<Rightarrow> wrapper \<Rightarrow> event list \<times> loop_state \<times> wrapper" where
  "monitor_process [] s = ([], Looping, s)"
| "monitor_process (env # envs) s =
     (if \<not> running env then
        (if \<not> persist_on_exit s then ([Poll (process s), MainQuit], Returned, s)
         else
           (case launch_process env s of
              (es, Some e, s') \<Rightarrow> (Poll (process s) # es, Raised e, s')
            | (es, None, s') \<Rightarrow>
                (let (es', st, s'') = monitor_process envs s'
                 in (Poll (process s) # es @ Sleep (poll_interval s') # es', st, s''))))
      else
        (let (es', st, s'') = monitor_process envs s
         in (Poll (process s) # Sleep (poll_interval s) # es', st, s'')))"

section \<open>The multi-application tray\<close>

text \<open>
  One entry of \<^verbatim>\<open>self.apps\<close>. \<^verbatim>\<open>main\<close> gives every entry a name, a \<^verbatim>\<open>wm_class\<close> and
  a command, and \<^verbatim>\<open>__init__\<close> sets \<^verbatim>\<open>process\<close> and \<^verbatim>\<open>window_id\<close> to \<^verbatim>\<open>None\<close>, so the
  tests \<^verbatim>\<open>'window_id' in app\<close> and \<^verbatim>\<open>'wm_class' in app\<close> are true throughout.
\<close>

record app =
  app_name :: string
  app_wm_class :: string
  app_cmd :: "string list"
  app_process :: "int option"
  app_window_id :: "int option"

text \<open>\<^verbatim>\<open>find_window\<close> of \<^verbatim>\<open>multi_app_tray\<close>: the lookup by process id is commented out.\<close>

definition multi_find_window :: "env \<Rightarrow> app \<Rightarrow> event list \<times> int option" where
  "multi_find_window env a =
     (if app_wm_class a \<noteq> [] then multi_find_window_by_class env (app_wm_class a)
      else ([], None))"

definition multi_unmap_window :: "env \<Rightarrow> int option \<Rightarrow> event list" where
  "multi_unmap_window env w =
     (case xlib_unmap env of
        None \<Rightarrow> [XUnmap w]
      | Some e \<Rightarrow> [XUnmap w, Print ''Error unmapping window'' (Some e)])"

text \<open>
  What a \<^verbatim>\<open>subprocess.run(..., check=c)\<close> raises, if anything, given the answer of the
  world.
\<close>

definition run_raises :: "bool \<Rightarrow> exn + int \<Rightarrow> exn option" where
  "run_raises check answer =
     (case answer of
        Inl e \<Rightarrow> Some e
      | Inr rc \<Rightarrow> if check \<and> rc \<noteq> 0 then Some (CalledProcessError rc) else None)"

fun is_CalledProcessError :: "exn \<Rightarrow> bool" where
  "is_CalledProcessError (CalledProcessError rc) = True"
| "is_CalledProcessError e = False"

definition launch_app :: "env \<Rightarrow> app \<Rightarrow> event list \<times> app" where
  "launch_app env a =
     (case popen env of
        Inl e \<Rightarrow> ([Popen (app_cmd a), Print (''Error launching '' @ app_name a) (Some e)], a)
      | Inr p \<Rightarrow> ([Popen (app_cmd a), Sleep 1500], a\<lparr>app_process := Some p\<rparr>))"

text \<open>
  The \<^verbatim>\<open>try\<close> block of \<^verbatim>\<open>on_show_app\<close>, up to its \<^verbatim>\<open>return\<close>: the calls made and
  the exception raised in the block, if any.
\<close>

definition show_cached :: "env \<Rightarrow> app \<Rightarrow> event list \<times> exn option" where
  "show_cached env a =
     (case run_raises True (xdotool_map env) of
        Some e \<Rightarrow> ([Run windowmap (app_window_id a)], Some e)
      | None \<Rightarrow>
          ([Run windowmap (app_window_id a), Run windowactivate_sync (app_window_id a)],
           run_raises True (xdotool_activate env)))"

text \<open>The statements of \<^verbatim>\<open>on_show_app\<close> after the \<^verbatim>\<open>try\<close> statement.\<close>

definition show_found :: "env \<Rightarrow> app \<Rightarrow> event list \<times> exn option \<times> app" where
  "show_found env a =
     (let (es, w) = multi_find_window env a;
          a' = a\<lparr>app_window_id := w\<rparr>
      in if truthy w then
           (case run_raises False (xdotool_map_again env) of
              Some e \<Rightarrow> (es @ [Run windowmap w], Some e, a')
            | None \<Rightarrow>
                (es @ [Run windowmap w, Run windowactivate_sync w],
                 run_raises False (xdotool_activate_again env), a'))
         else (let (es', a'') = launch_app env a' in (es @ es', None, a'')))"

text \<open>
  \<^verbatim>\<open>on_show_app\<close>: the handler of the \<^verbatim>\<open>try\<close> catches \<^verbatim>\<open>CalledProcessError\<close> only;
  any other exception leaves the method.
\<close>

definition on_show_app :: "env \<Rightarrow> app \<Rightarrow> event list \<times> exn option \<times> app" where
  "on_show_app env a =
     (case show_cached env a of
        (es, None) \<Rightarrow> (es, None, a)
      | (es, Some e) \<Rightarrow>
          if is_CalledProcessError e then
            (let (es', x, a') = show_found env a in (es @ es', x, a'))
          else (es, Some e, a))"

definition on_hide_app :: "env \<Rightarrow> app \<Rightarrow> event list \<times> exn option \<times> app" where
  "on_hide_app env a =
     (let (es, w) = multi_find_window env a;
          a' = a\<lparr>app_window_id := w\<rparr>
      in if truthy w then
           (case run_raises False (xdotool_minimize env) of
              Some e \<Rightarrow> (es @ [Run windowminimize w], Some e, a')
            | None \<Rightarrow> (es @ Run windowminimize w # multi_unmap_window env w, None, a'))
         else (es, None, a'))"

text \<open>
  The body of the loop of \<^verbatim>\<open>on_quit\<close> for one application: the calls made, and the
  exception of \<^verbatim>\<open>kill\<close> that leaves the body, if any.
\<close>

definition quit_app :: "env \<Rightarrow> app \<Rightarrow> event list \<times> exn option" where
  "quit_app env a =
     (case app_process a of
        None \<Rightarrow> ([], None)
      | Some p \<Rightarrow>
          if running env then
            (case terminate env of
               Some e \<Rightarrow>
                 ([Poll p, Terminate p,
                   Print (''Error while terminating '' @ app_name a) (Some (OSError e))], None)
             | None \<Rightarrow>
                 (case wait env of
                    Exited \<Rightarrow> ([Poll p, Terminate p, Wait p 3000], None)
                  | TimedOut \<Rightarrow>
                      ([Poll p, Terminate p, Wait p 3000,
                        Print (''Process '' @ app_name a @ '' did not terminate in time; killing it.'')
                          None,
                        Kill p], map_option OSError (kill env))
                  | WaitRaised e \<Rightarrow>
                      ([Poll p, Terminate p, Wait p 3000,
                        Print (''Error while terminating '' @ app_name a) (Some (OSError e))],
                       None)))
          else ([Poll p], None))"

text \<open>
  \<^verbatim>\<open>on_quit\<close> of \<^verbatim>\<open>multi_app_tray\<close>; \<open>envs i\<close> holds the answers of the world for
  the application at position \<open>i\<close>. An exception that leaves the body of the loop leaves
  \<^verbatim>\<open>on_quit\<close>: the applications after it are not handled and \<^verbatim>\<open>Gtk.main_quit()\<close> is
  not reached.
\<close>

fun quit_apps :: "(nat \<Rightarrow> env) \<Rightarrow> nat \<Rightarrow> app list \<Rightarrow> event list \<times> exn option" where
  "quit_apps envs i [] = ([], None)"
| "quit_apps envs i (a # as) =
     (case quit_app (envs i) a of
        (es, Some e) \<Rightarrow> (es, Some e)
      | (es, None) \<Rightarrow> (let (es', x) = quit_apps envs (Suc i) as in (es @ es', x)))"

definition multi_on_quit :: "(nat \<Rightarrow> env) \<Rightarrow> app list \<Rightarrow> event list \<times> exn option" where
  "multi_on_quit envs apps =
     (case quit_apps envs 0 apps of
        (es, Some e) \<Rightarrow> (es, Some e)
      | (es, None) \<Rightarrow> (es @ [MainQuit], None))"

section \<open>Notions used to state the properties\<close>

text \<open>
  The first column of a line, and the handle it denotes when it is a base-16 literal.
\<close>

definition first_column :: "string \<Rightarrow> string" where
  "first_column line = takeWhile (\<lambda>c. \<not> isspace c) (dropWhile isspace line)"

definition handle_of :: "string \<Rightarrow> int option" where
  "handle_of line = (case int16 (first_column line) of Inl e \<Rightarrow> None | Inr h \<Rightarrow> Some h)"

text \<open>
  A line whose third field numerically equals the process id: the line has three fields,
  the third consists of digits, and \<^verbatim>\<open>int\<close> reads it as that number.
\<close>

definition pid_field_matches :: "nat \<Rightarrow> int \<Rightarrow> string \<Rightarrow> bool" where
  "pid_field_matches lim p line \<longleftrightarrow>
     3 \<le> length (split_ws 4 line) \<and> isdigit (split_ws 4 line ! 2) \<and>
     int10 lim (split_ws 4 line ! 2) = Inr p"

text \<open>
  A line whose third field passes \<^verbatim>\<open>isdigit\<close> and is refused by \<^verbatim>\<open>int\<close>: it holds a
  superscript digit, or more digits than the interpreter converts.
\<close>

definition pid_field_unreadable :: "nat \<Rightarrow> string \<Rightarrow> bool" where
  "pid_field_unreadable lim line \<longleftrightarrow>
     3 \<le> length (split_ws 4 line) \<and> isdigit (split_ws 4 line ! 2) \<and>
     int10 lim (split_ws 4 line ! 2) = Inl ValueError"

text \<open>
  A line that the class lookup takes: it has at least \<open>least\<close> fields and its third
  field contains the matcher.
\<close>

definition class_field_matches :: "nat \<Rightarrow> string \<Rightarrow> string \<Rightarrow> bool" where
  "class_field_matches least m line \<longleftrightarrow>
     least \<le> length (split_ws 5 line) \<and> str_contains (split_ws 5 line ! 2) m"

text \<open>
  The matcher a single-application wrapper works with, if any:
  \<^verbatim>\<open>minimize_to_tray_wrapper\<close> has none, and \<^verbatim>\<open>tray_wrapper\<close> treats an empty one as
  none.
\<close>

definition matcher :: "wrapper \<Rightarrow> string option" where
  "matcher s =
     (case variant s of
        MinimizeToTray \<Rightarrow> None
      | TrayWrapper \<Rightarrow>
          (case wm_class s of None \<Rightarrow> None | Some c \<Rightarrow> if c = [] then None else Some c))"

text \<open>
  \<open>before a b es\<close>: where \<open>b\<close> occurs in \<open>es\<close>, an \<open>a\<close> occurs earlier.
\<close>

fun before :: "event \<Rightarrow> event \<Rightarrow> event list \<Rightarrow> bool" where
  "before a b [] = True"
| "before a b (x # xs) = (if x = a then True else if x = b then False else before a b xs)"

text \<open>The events by which a window is hidden, and the starts of a process.\<close>

fun is_minimize :: "event \<Rightarrow> bool" where
  "is_minimize (Run c w) = (c = windowminimize)"
| "is_minimize e = False"

fun is_unmap :: "event \<Rightarrow> bool" where
  "is_unmap (XUnmap w) = True"
| "is_unmap e = False"

definition hides :: "event \<Rightarrow> bool" where
  "hides e \<longleftrightarrow> is_minimize e \<or> is_unmap e"

fun is_Popen :: "event \<Rightarrow> bool" where
  "is_Popen (Popen c) = True"
| "is_Popen e = False"

definition relaunches :: "event list \<Rightarrow> nat" where
  "relaunches es = length (filter is_Popen es)"

text \<open>The polls of the process; every pass of the poll loop makes one.\<close>

fun is_Poll :: "event \<Rightarrow> bool" where
  "is_Poll (Poll p) = True"
| "is_Poll e = False"

definition polls :: "event list \<Rightarrow> nat" where
  "polls es = length (filter is_Poll es)"

text \<open>\<^verbatim>\<open>Popen\<close> returns a process.\<close>

definition starts :: "env \<Rightarrow> bool" where
  "starts env = (case popen env of Inl e \<Rightarrow> False | Inr p \<Rightarrow> True)"

text \<open>
  What happens to a single-application wrapper after its construction: the menu entries
  are activated and the poll loop makes its passes, in any order. An exception that
  leaves a menu callback is reported by the toolkit and the main loop goes on; the fields
  keep what was written before it. \<open>Tick\<close> is one pass through the loop of
  \<^verbatim>\<open>monitor_process\<close>. The two threads are interleaved method by method here.
\<close>

datatype action = Show | Hide | Quit | Tick

fun step :: "action \<times> env \<Rightarrow> wrapper \<Rightarrow> wrapper" where
  "step (Show, env) s = snd (snd (on_show env s))"
| "step (Hide, env) s = snd (snd (on_hide env s))"
| "step (Quit, env) s = snd (snd (on_quit env s))"
| "step (Tick, env) s = snd (snd (monitor_process [env] s))"

fun run :: "(action \<times> env) list \<Rightarrow> wrapper \<Rightarrow> wrapper" where
  "run [] s = s"
| "run (a # as) s = run as (step a s)"

subsection \<open>Sample answers of the world\<close>

definition calm :: env where
  "calm =
     \<lparr>max_str_digits = 4300, running = True, popen = Inr 12345, wmctrl = Inr [],
      xdotool_minimize = Inr 0, xdotool_map = Inr 0, xdotool_activate = Inr 0,
      xdotool_map_again = Inr 0, xdotool_activate_again = Inr 0, xlib_unmap = None,
      terminate = None, wait = Exited, kill = None\<rparr>"

definition calculator_by_pid :: string where
  "calculator_by_pid = ''0x02400007  0 12345 host Calculator''"

definition calculator_by_class :: string where
  "calculator_by_class = ''0x02400007  0 gnome-calculator.Gnome-calculator host Calculator''"

definition calculator :: wrapper where
  "calculator =
     \<lparr>variant = TrayWrapper, cmd = [''gnome-calculator''], wm_class = None,
      persist_on_exit = False, first_launch = False, process = 12345, pid = 12345,
      window_id = None\<rparr>"

definition calculator_app :: app where
  "calculator_app =
     \<lparr>app_name = ''Calculator'', app_wm_class = [], app_cmd = [''gnome-calculator''],
      app_process = Some 12345, app_window_id = None\<rparr>"

definition terminal_app :: app where
  "terminal_app =
     \<lparr>app_name = ''Terminal'', app_wm_class = ''Gnome-terminal'', app_cmd = [''gnome-terminal''],
      app_process = Some 23456, app_window_id = None\<rparr>"

text \<open>A listing whose first line stops after the class field.\<close>

definition short_line :: string where
  "short_line = ''0x02400007  0 gnome-calculator.Gnome-calculator''"

definition full_line :: string where
  "full_line = ''0x02400008  0 gnome-calculator.Gnome-calculator host Calculator''"

definition short_then_full :: string where
  "short_then_full = short_line @ [CHR 10] @ full_line"

text \<open>A listing whose first line has the superscript two (U+00B2) as its third field.\<close>

definition superscript_line :: string where
  "superscript_line = ''0x02400001  0 '' @ [CHR 0xB2] @ '' host Terminal''"

definition superscript_then_match :: string where
  "superscript_then_match = superscript_line @ [CHR 10] @ calculator_by_pid"

text \<open>A listing whose only line names the window 0.\<close>

definition zero_handle :: string where
  "zero_handle = ''0x00000000  0 12345 host Calculator''"

text \<open>Listings whose only line has a first column that is no base-16 literal.\<close>

definition bad_handle :: string where
  "bad_handle = ''window7  0 12345 host Calculator''"

definition bad_handle_class :: string where
  "bad_handle_class = ''window7  0 gnome-calculator.Gnome-calculator host Calculator''"

section \<open>Properties of the lookup loops\<close>

lemma split_ws_first:
  "split_ws (Suc k) line \<noteq> [] \<Longrightarrow> split_ws (Suc k) line ! 0 = first_column line"
  by (auto simp add: first_column_def Let_def split: if_splits)

text \<open>
  The first \<open>k\<close> fields of a line do not depend on how many further splits are allowed:
  the third field is the same whether the line is split at most 4 or at most 5 times.
\<close>

lemma split_ws_take: "take k (split_ws (k + m) line) = take k (split_ws k line)"
  by (induction k arbitrary: line) (simp_all add: Let_def)

text \<open>\<open>str_contains\<close> is containment as a contiguous run, character for character.\<close>

lemma startswith_iff: "startswith s p \<longleftrightarrow> (\<exists>b. s = p @ b)"
  by (induction s p rule: startswith.induct) auto

lemma str_contains_iff: "str_contains s p \<longleftrightarrow> (\<exists>a b. s = a @ p @ b)"
proof (induction s)
  case Nil
  show ?case by simp
next
  case (Cons c cs)
  have "(\<exists>a b. c # cs = a @ p @ b) \<longleftrightarrow> (\<exists>b. c # cs = p @ b) \<or> (\<exists>a b. cs = a @ p @ b)"
  proof
    assume "\<exists>a b. c # cs = a @ p @ b"
    then obtain a b where ab: "c # cs = a @ p @ b" by blast
    show "(\<exists>b. c # cs = p @ b) \<or> (\<exists>a b. cs = a @ p @ b)"
    proof (cases a)
      case Nil
      with ab show ?thesis by auto
    next
      case (Cons x a')
      with ab have "cs = a' @ p @ b" by simp
      then show ?thesis by blast
    qed
  next
    assume "(\<exists>b. c # cs = p @ b) \<or> (\<exists>a b. cs = a @ p @ b)"
    then show "\<exists>a b. c # cs = a @ p @ b"
    proof
      assume "\<exists>b. c # cs = p @ b"
      then obtain b where "c # cs = [] @ p @ b" by auto
      then show ?thesis by blast
    next
      assume "\<exists>a b. cs = a @ p @ b"
      then obtain a b where "c # cs = (c # a) @ p @ b" by auto
      then show ?thesis by blast
    qed
  qed
  with Cons.IH show ?case
    by (simp add: startswith_iff del: startswith.simps)
qed

lemma handle_of_cases:
  "(case int16 (first_column line) of Inl e \<Rightarrow> Inl e | Inr h \<Rightarrow> Inr (Some h)) =
   (case handle_of line of None \<Rightarrow> Inl ValueError | Some h \<Rightarrow> Inr (Some h))"
  by (simp add: handle_of_def int16_def split: option.splits prod.splits)

lemma scan_pid_hit:
  assumes "pid_field_matches lim p line"
  shows "scan_pid lim p (line # lines) =
         (case handle_of line of None \<Rightarrow> Inl ValueError | Some h \<Rightarrow> Inr (Some h))"
proof -
  from assms have len: "3 \<le> length (split_ws 4 line)"
    and dig: "isdigit (split_ws 4 line ! 2)"
    and val: "int10 lim (split_ws 4 line ! 2) = Inr p"
    by (simp_all add: pid_field_matches_def)
  from len have "split_ws (Suc 3) line \<noteq> []" by (auto simp: numeral_eq_Suc)
  then have "split_ws (Suc 3) line ! 0 = first_column line" by (rule split_ws_first)
  then have col: "split_ws 4 line ! 0 = first_column line" by (simp add: numeral_eq_Suc)
  show ?thesis
    using len dig val col handle_of_cases [of line] by (simp add: Let_def del: split_ws.simps)
qed

lemma scan_pid_skip:
  assumes "\<not> pid_field_matches lim p line" and "\<not> pid_field_unreadable lim line"
  shows "scan_pid lim p (line # lines) = scan_pid lim p lines"
proof (cases "int10 lim (split_ws 4 line ! 2)")
  case (Inl e)
  then have "int10 lim (split_ws 4 line ! 2) = Inl ValueError"
    by (auto simp: int10_def split: option.splits prod.splits if_splits)
  with assms show ?thesis
    by (simp add: pid_field_matches_def pid_field_unreadable_def Let_def del: split_ws.simps)
next
  case (Inr n)
  with assms show ?thesis
    by (auto simp add: pid_field_matches_def pid_field_unreadable_def Let_def simp del: split_ws.simps)
qed

lemma scan_pid_prefix:
  "\<forall>x\<in>set pre. \<not> pid_field_matches lim p x \<and> \<not> pid_field_unreadable lim x \<Longrightarrow>
   scan_pid lim p (pre @ rest) = scan_pid lim p rest"
proof (induction pre)
  case Nil
  show ?case by simp
next
  case (Cons x pre)
  then have "scan_pid lim p (x # (pre @ rest)) = scan_pid lim p (pre @ rest)"
    by (intro scan_pid_skip) simp_all
  with Cons show ?case by simp
qed

lemma scan_pid_found_matches:
  "scan_pid lim p lines = Inr (Some h) \<Longrightarrow> \<exists>l\<in>set lines. pid_field_matches lim p l"
proof (induction lines)
  case Nil
  then show ?case by simp
next
  case (Cons l lines)
  show ?case
  proof (cases "pid_field_matches lim p l")
    case True
    then show ?thesis by simp
  next
    case False
    with Cons.prems have "scan_pid lim p lines = Inr (Some h)"
      by (auto simp add: pid_field_matches_def Let_def simp del: split_ws.simps
          split: if_splits sum.splits)
    with Cons.IH show ?thesis by simp
  qed
qed

lemma find_window_by_pid_result:
  "wmctrl env = Inr out \<Longrightarrow>
   snd (find_window_by_pid env p) =
     (case scan_pid (max_str_digits env) p (splitlines out) of Inl e \<Rightarrow> None | Inr r \<Rightarrow> r)"
  by (simp add: find_window_by_pid_def split: sum.splits)

lemma scan_class_hit:
  assumes "class_field_matches (Suc k) m line"
  shows "scan_class (Suc k) m (line # lines) =
         (case handle_of line of None \<Rightarrow> Inl ValueError | Some h \<Rightarrow> Inr (Some h))"
proof -
  from assms have len: "Suc k \<le> length (split_ws 5 line)"
    and sub: "str_contains (split_ws 5 line ! 2) m"
    by (simp_all add: class_field_matches_def)
  from len have "split_ws (Suc 4) line \<noteq> []" by (auto simp: numeral_eq_Suc)
  then have "split_ws (Suc 4) line ! 0 = first_column line" by (rule split_ws_first)
  then have col: "split_ws 5 line ! 0 = first_column line" by (simp add: numeral_eq_Suc)
  show ?thesis
    using len sub col handle_of_cases [of line] by (simp add: Let_def del: split_ws.simps)
qed

lemma scan_class_skip:
  "\<not> class_field_matches least m line \<Longrightarrow>
   scan_class least m (line # lines) = scan_class least m lines"
  by (auto simp add: class_field_matches_def Let_def simp del: split_ws.simps)

lemma scan_class_prefix:
  "\<forall>x\<in>set pre. \<not> class_field_matches least m x \<Longrightarrow>
   scan_class least m (pre @ rest) = scan_class least m rest"
  by (induction pre) (simp_all add: scan_class_skip del: scan_class.simps)

lemma find_window_by_class_result:
  "wmctrl env = Inr out \<Longrightarrow>
   snd (find_window_by_class_least least env m) =
     (case scan_class least m (splitlines out) of Inl e \<Rightarrow> None | Inr r \<Rightarrow> r)"
  by (simp add: find_window_by_class_least_def split: sum.splits)

lemma lookup_matcher:
  "lookup env s =
     (case matcher s of
        None \<Rightarrow> find_window_by_pid env (pid s)
      | Some c \<Rightarrow> find_window_by_class env c)"
  by (simp add: lookup_def matcher_def find_window_def split: variant.splits option.splits)

subsection \<open>The sample listings, evaluated\<close>

lemmas text_eval =
  ord_def isspace_def is_linebreak_def isdigit_def isdigit_char_def is_decimal_char_def
  int_space_def digit_value_def strip_int_def drop_prefix16_def unsigned_literal_def
  int_literal_def int10_def int16_def splitlines_def first_column_def handle_of_def

lemma split_ws_numeral:
  "split_ws (numeral n) s =
     (let r = dropWhile isspace s in
      if r = [] then []
      else takeWhile (\<lambda>c. \<not> isspace c) r #
           split_ws (pred_numeral n) (dropWhile (\<lambda>c. \<not> isspace c) r))"
  by (simp add: numeral_eq_Suc)

lemma calculator_line: "splitlines calculator_by_pid = [calculator_by_pid]"
  by (simp add: calculator_by_pid_def text_eval)

lemma calculator_fields:
  "split_ws 4 calculator_by_pid = [''0x02400007'', ''0'', ''12345'', ''host'', ''Calculator'']"
  by (simp add: calculator_by_pid_def text_eval split_ws_numeral)

lemma calculator_line_matches: "pid_field_matches 4300 12345 calculator_by_pid"
  by (simp add: pid_field_matches_def calculator_fields text_eval del: split_ws.simps)

lemma calculator_handle: "handle_of calculator_by_pid = Some 37748743"
  by (simp add: calculator_by_pid_def text_eval)

lemma single_line_pid_lookup:
  assumes "wmctrl env = Inr out" and "splitlines out = [line]"
    and "pid_field_matches (max_str_digits env) p line" and "handle_of line = Some h"
  shows "find_window_by_pid env p = ([CheckOutput wmctrl_lp], Some h)"
  using assms scan_pid_hit [of "max_str_digits env" p line "[]"]
  by (simp add: find_window_by_pid_def del: scan_pid.simps)

lemma single_line_class_lookup:
  assumes "wmctrl env = Inr out" and "splitlines out = [line]"
    and "class_field_matches (Suc k) m line" and "handle_of line = Some h"
  shows "find_window_by_class_least (Suc k) env m = ([CheckOutput wmctrl_lx], Some h)"
  using assms scan_class_hit [of k m line "[]"]
  by (simp add: find_window_by_class_least_def del: scan_class.simps)

lemma calculator_found:
  "find_window_by_pid (calm\<lparr>wmctrl := Inr calculator_by_pid\<rparr>) 12345 =
     ([CheckOutput wmctrl_lp], Some 37748743)"
  using calculator_line calculator_line_matches calculator_handle
  by (intro single_line_pid_lookup [of _ calculator_by_pid calculator_by_pid])
     (simp_all add: calm_def)

section \<open>Lookup by process id\<close>

text \<open>
  The lookup by process id of the single-application wrappers, with no matcher. It goes
  through the lines in order: when a line's third field numerically equals the process id
  of the launched process, and no line before it has such a field or a third field that
  \<^verbatim>\<open>isdigit\<close> accepts and \<^verbatim>\<open>int\<close> refuses, the result is the first column of that
  line read as a base-16 literal (absent when it is not one); when no line has a matching
  field, the result is absent.
\<close>

lemma single_pid_lookup:
  "(wmctrl env = Inr out \<and> matcher s = None \<and> splitlines out = pre @ line # post \<and>
      (\<forall>x\<in>set pre. \<not> pid_field_matches (max_str_digits env) (pid s) x \<and>
                   \<not> pid_field_unreadable (max_str_digits env) x) \<and>
      pid_field_matches (max_str_digits env) (pid s) line
      \<longrightarrow> snd (lookup env s) = handle_of line) \<and>
   (wmctrl env = Inr out \<and> matcher s = None \<and>
      (\<forall>x\<in>set (splitlines out). \<not> pid_field_matches (max_str_digits env) (pid s) x)
      \<longrightarrow> snd (lookup env s) = None)"
proof (intro conjI impI)
  assume h: "wmctrl env = Inr out \<and> matcher s = None \<and> splitlines out = pre @ line # post \<and>
      (\<forall>x\<in>set pre. \<not> pid_field_matches (max_str_digits env) (pid s) x \<and>
                   \<not> pid_field_unreadable (max_str_digits env) x) \<and>
      pid_field_matches (max_str_digits env) (pid s) line"
  then have "scan_pid (max_str_digits env) (pid s) (splitlines out) =
             scan_pid (max_str_digits env) (pid s) (line # post)"
    by (simp add: scan_pid_prefix del: scan_pid.simps)
  also from h have "\<dots> = (case handle_of line of None \<Rightarrow> Inl ValueError | Some h \<Rightarrow> Inr (Some h))"
    by (simp add: scan_pid_hit del: scan_pid.simps)
  finally show "snd (lookup env s) = handle_of line"
    using h by (simp add: lookup_matcher find_window_by_pid_result split: option.splits)
next
  assume h: "wmctrl env = Inr out \<and> matcher s = None \<and>
      (\<forall>x\<in>set (splitlines out). \<not> pid_field_matches (max_str_digits env) (pid s) x)"
  then have "\<And>h. scan_pid (max_str_digits env) (pid s) (splitlines out) \<noteq> Inr (Some h)"
    using scan_pid_found_matches by blast
  then have "(case scan_pid (max_str_digits env) (pid s) (splitlines out) of
               Inl e \<Rightarrow> None | Inr r \<Rightarrow> r) = None"
    by (cases "scan_pid (max_str_digits env) (pid s) (splitlines out)") auto
  with h show "snd (lookup env s) = None"
    by (simp add: lookup_matcher find_window_by_pid_result)
qed

lemma calculator_lookup:
  "lookup (calm\<lparr>wmctrl := Inr calculator_by_pid\<rparr>) calculator =
     ([CheckOutput wmctrl_lp], Some 37748743)"
  using calculator_found
  by (simp add: lookup_def find_window_def calculator_def)

text \<open>
  Claim C1 fails in \<^verbatim>\<open>multi_app_tray\<close>, against the docstring of its \<^verbatim>\<open>find_window\<close>
  (\<open>Finds the window via wmctrl by either WM_CLASS or by PID\<close>): the lookup by process
  id is commented out. With no matcher configured, a launched process 12345 and the
  listing \<^verbatim>\<open>0x02400007  0 12345 host Calculator\<close>, whose third field is that process
  id, \<^verbatim>\<open>find_window\<close> returns absent without calling the listing tool. On the same
  listing \<^verbatim>\<open>tray_wrapper\<close> returns the handle 37748743, as the claim has it.
\<close>

theorem multi_pid_lookup_disabled:
  "pid_field_matches 4300 12345 calculator_by_pid \<and>
   app_wm_class calculator_app = [] \<and> app_process calculator_app = Some 12345 \<and>
   multi_find_window (calm\<lparr>wmctrl := Inr calculator_by_pid\<rparr>) calculator_app = ([], None) \<and>
   lookup (calm\<lparr>wmctrl := Inr calculator_by_pid\<rparr>) calculator =
     ([CheckOutput wmctrl_lp], Some 37748743)"
  using calculator_line_matches calculator_lookup
  by (simp add: multi_find_window_def calculator_app_def)

section \<open>Lookup by window class\<close>

lemma multi_find_window_matcher:
  "app_wm_class a \<noteq> [] \<Longrightarrow>
   multi_find_window env a = multi_find_window_by_class env (app_wm_class a)"
  by (simp add: multi_find_window_def)

lemma class_scan_first_match:
  assumes "splitlines out = pre @ line # post"
    and "\<forall>x\<in>set pre. \<not> class_field_matches (Suc k) m x"
    and "class_field_matches (Suc k) m line"
    and "wmctrl env = Inr out"
  shows "snd (find_window_by_class_least (Suc k) env m) = handle_of line"
proof -
  from assms(1,2) have "scan_class (Suc k) m (splitlines out) = scan_class (Suc k) m (line # post)"
    by (simp add: scan_class_prefix del: scan_class.simps)
  also from assms(3)
  have "\<dots> = (case handle_of line of None \<Rightarrow> Inl ValueError | Some h \<Rightarrow> Inr (Some h))"
    by (rule scan_class_hit)
  finally show ?thesis
    using assms(4) by (simp add: find_window_by_class_result split: option.splits)
qed

text \<open>
  The lookup by class of each program: the result is the first column, read as a base-16
  literal (absent when it is not one), of the first line that has at least four fields in
  \<^verbatim>\<open>tray_wrapper\<close>, at least three in \<^verbatim>\<open>multi_app_tray\<close>, and whose third field
  contains the matcher as a substring, compared character by character.
\<close>

lemma class_lookup_scan:
  "(wmctrl env = Inr out \<and> matcher s = Some m \<and> splitlines out = pre @ line # post \<and>
      (\<forall>x\<in>set pre. \<not> class_field_matches 4 m x) \<and> class_field_matches 4 m line
      \<longrightarrow> snd (lookup env s) = handle_of line) \<and>
   (wmctrl env = Inr out \<and> app_wm_class a \<noteq> [] \<and> splitlines out = pre @ line # post \<and>
      (\<forall>x\<in>set pre. \<not> class_field_matches 3 (app_wm_class a) x) \<and>
      class_field_matches 3 (app_wm_class a) line
      \<longrightarrow> snd (multi_find_window env a) = handle_of line)"
proof (intro conjI impI)
  assume h: "wmctrl env = Inr out \<and> matcher s = Some m \<and> splitlines out = pre @ line # post \<and>
      (\<forall>x\<in>set pre. \<not> class_field_matches 4 m x) \<and> class_field_matches 4 m line"
  then have "snd (find_window_by_class_least (Suc 3) env m) = handle_of line"
    by (intro class_scan_first_match [of out pre line post]) (simp_all add: numeral_eq_Suc)
  with h show "snd (lookup env s) = handle_of line"
    by (simp add: lookup_matcher find_window_by_class_def numeral_eq_Suc)
next
  assume h: "wmctrl env = Inr out \<and> app_wm_class a \<noteq> [] \<and> splitlines out = pre @ line # post \<and>
      (\<forall>x\<in>set pre. \<not> class_field_matches 3 (app_wm_class a) x) \<and>
      class_field_matches 3 (app_wm_class a) line"
  then have "snd (find_window_by_class_least (Suc 2) env (app_wm_class a)) = handle_of line"
    by (intro class_scan_first_match [of out pre line post]) (simp_all add: numeral_eq_Suc)
  with h show "snd (multi_find_window env a) = handle_of line"
    by (simp add: multi_find_window_matcher multi_find_window_by_class_def numeral_eq_Suc)
qed

lemma class_line: "splitlines calculator_by_class = [calculator_by_class]"
  by (simp add: calculator_by_class_def text_eval)

lemma class_fields:
  "split_ws 5 calculator_by_class =
     [''0x02400007'', ''0'', ''gnome-calculator.Gnome-calculator'', ''host'', ''Calculator'']"
  by (simp add: calculator_by_class_def text_eval split_ws_numeral)

lemma class_contains:
  "str_contains ''gnome-calculator.Gnome-calculator'' ''Gnome-calculator''"
  by simp

lemma class_line_matches:
  "class_field_matches 4 ''Gnome-calculator'' calculator_by_class \<and>
   class_field_matches 3 ''Gnome-calculator'' calculator_by_class"
  using class_contains by (simp add: class_field_matches_def class_fields del: str_contains.simps)

lemma class_handle: "handle_of calculator_by_class = Some 37748743"
  by (simp add: calculator_by_class_def text_eval)

lemma short_lines: "splitlines short_then_full = [short_line, full_line]"
  by (simp add: short_then_full_def short_line_def full_line_def text_eval)

lemma short_fields:
  "split_ws 5 short_line = [''0x02400007'', ''0'', ''gnome-calculator.Gnome-calculator'']"
  by (simp add: short_line_def text_eval split_ws_numeral)

lemma full_fields:
  "split_ws 5 full_line =
     [''0x02400008'', ''0'', ''gnome-calculator.Gnome-calculator'', ''host'', ''Calculator'']"
  by (simp add: full_line_def text_eval split_ws_numeral)

lemma short_handle: "handle_of short_line = Some 37748743"
  by (simp add: short_line_def text_eval)

lemma full_handle: "int16 ''0x02400008'' = Inr 37748744"
  by (simp add: text_eval)

lemma short_first_column: "int16 ''0x02400007'' = Inr 37748743"
  by (simp add: text_eval)

lemma short_then_full_multi:
  "multi_find_window_by_class (calm\<lparr>wmctrl := Inr short_then_full\<rparr>) ''Gnome-calculator'' =
     ([CheckOutput wmctrl_lx], Some 37748743)"
  using class_contains short_first_column
  by (simp add: multi_find_window_by_class_def find_window_by_class_least_def calm_def
      short_lines short_fields del: str_contains.simps)

text \<open>
  Claim C2 fails in \<^verbatim>\<open>tray_wrapper\<close>, whose lookup by class asks for four fields before
  it reads the third. The first line of the listing ends after its class field, which
  contains the matcher \<^verbatim>\<open>Gnome-calculator\<close>, and has the handle 37748743: the lookup
  passes it over and returns the handle 37748744 of the second line. The lookup by class
  of \<^verbatim>\<open>multi_app_tray\<close>, which asks for three fields, returns 37748743 on the same
  listing, as the claim has it.
\<close>

theorem class_lookup_skips_short_line:
  "splitlines short_then_full = [short_line, full_line] \<and>
   split_ws 5 short_line = [''0x02400007'', ''0'', ''gnome-calculator.Gnome-calculator''] \<and>
   str_contains (split_ws 5 short_line ! 2) ''Gnome-calculator'' \<and>
   handle_of short_line = Some 37748743 \<and>
   find_window_by_class (calm\<lparr>wmctrl := Inr short_then_full\<rparr>) ''Gnome-calculator'' =
     ([CheckOutput wmctrl_lx], Some 37748744) \<and>
   multi_find_window_by_class (calm\<lparr>wmctrl := Inr short_then_full\<rparr>) ''Gnome-calculator'' =
     ([CheckOutput wmctrl_lx], Some 37748743)"
  using class_contains short_handle full_handle short_then_full_multi
  by (simp add: find_window_by_class_def find_window_by_class_least_def calm_def short_lines
      short_fields full_fields del: str_contains.simps)

section \<open>Failures of the listing tool\<close>

lemma launch_process_raises:
  "fst (snd (launch_process env s)) = (case popen env of Inl x \<Rightarrow> Some x | Inr q \<Rightarrow> None)"
  by (simp add: launch_process_def Let_def split: sum.splits prod.splits)

text \<open>
  Claim C3. When the call of the listing tool raises (the program is missing, it exits with
  a code other than 0, its output cannot be decoded), each lookup prints the exception and
  returns absent; when the tool returns text on which the parsing raises, likewise. The
  lookups have no other way to end: nothing is raised to the caller, and
  \<^verbatim>\<open>launch_process\<close>, which calls the lookup, raises only what \<^verbatim>\<open>Popen\<close> raises.
\<close>

theorem lookup_failure_absent:
  "(wmctrl env = Inl e \<longrightarrow>
      find_window_by_pid env p =
        ([CheckOutput wmctrl_lp, Print ''Error finding window by pid'' (Some e)], None) \<and>
      find_window_by_class env m =
        ([CheckOutput wmctrl_lx, Print ''Error finding window by class'' (Some e)], None) \<and>
      multi_find_window_by_class env m =
        ([CheckOutput wmctrl_lx, Print ''Error finding window by class'' (Some e)], None)) \<and>
   (wmctrl env = Inr out \<and> scan_pid (max_str_digits env) p (splitlines out) = Inl e \<longrightarrow>
      find_window_by_pid env p =
        ([CheckOutput wmctrl_lp, Print ''Error finding window by pid'' (Some e)], None)) \<and>
   (wmctrl env = Inr out \<and> scan_class 4 m (splitlines out) = Inl e \<longrightarrow>
      find_window_by_class env m =
        ([CheckOutput wmctrl_lx, Print ''Error finding window by class'' (Some e)], None)) \<and>
   (wmctrl env = Inr out \<and> scan_class 3 m (splitlines out) = Inl e \<longrightarrow>
      multi_find_window_by_class env m =
        ([CheckOutput wmctrl_lx, Print ''Error finding window by class'' (Some e)], None)) \<and>
   fst (snd (launch_process env s)) = (case popen env of Inl x \<Rightarrow> Some x | Inr q \<Rightarrow> None)"
  by (simp add: find_window_by_pid_def find_window_by_class_def multi_find_window_by_class_def
      find_window_by_class_least_def launch_process_raises)

lemma bad_handle_line: "splitlines bad_handle = [bad_handle]"
  by (simp add: bad_handle_def text_eval)

lemma bad_handle_fields:
  "split_ws 4 bad_handle = [''window7'', ''0'', ''12345'', ''host'', ''Calculator'']"
  by (simp add: bad_handle_def text_eval split_ws_numeral)

lemma bad_handle_scan: "scan_pid 4300 12345 [bad_handle] = Inl ValueError"
  by (simp add: bad_handle_fields text_eval del: split_ws.simps)

lemma bad_handle_class_line: "splitlines bad_handle_class = [bad_handle_class]"
  by (simp add: bad_handle_class_def text_eval)

lemma bad_handle_class_fields:
  "split_ws 5 bad_handle_class =
     [''window7'', ''0'', ''gnome-calculator.Gnome-calculator'', ''host'', ''Calculator'']"
  by (simp add: bad_handle_class_def text_eval split_ws_numeral)

lemma bad_handle_class_scan:
  "scan_class 4 ''Gnome-calculator'' [bad_handle_class] = Inl ValueError \<and>
   scan_class 3 ''Gnome-calculator'' [bad_handle_class] = Inl ValueError"
  using class_contains
  by (simp add: bad_handle_class_fields text_eval del: split_ws.simps str_contains.simps)

theorem lookup_failure_absent_witness:
  "find_window_by_pid (calm\<lparr>wmctrl := Inl (OSError FileNotFound)\<rparr>) 12345 =
     ([CheckOutput wmctrl_lp,
       Print ''Error finding window by pid'' (Some (OSError FileNotFound))], None) \<and>
   find_window_by_class (calm\<lparr>wmctrl := Inl (CalledProcessError 1)\<rparr>) ''Gnome-calculator'' =
     ([CheckOutput wmctrl_lx,
       Print ''Error finding window by class'' (Some (CalledProcessError 1))], None) \<and>
   find_window_by_pid (calm\<lparr>wmctrl := Inr bad_handle\<rparr>) 12345 =
     ([CheckOutput wmctrl_lp, Print ''Error finding window by pid'' (Some ValueError)], None) \<and>
   find_window_by_class (calm\<lparr>wmctrl := Inr bad_handle_class\<rparr>) ''Gnome-calculator'' =
     ([CheckOutput wmctrl_lx, Print ''Error finding window by class'' (Some ValueError)], None) \<and>
   multi_find_window_by_class (calm\<lparr>wmctrl := Inr bad_handle_class\<rparr>) ''Gnome-calculator'' =
     ([CheckOutput wmctrl_lx, Print ''Error finding window by class'' (Some ValueError)], None)"
  using lookup_failure_absent
    [of "calm\<lparr>wmctrl := Inl (OSError FileNotFound)\<rparr>" "OSError FileNotFound" 12345]
    lookup_failure_absent
    [of "calm\<lparr>wmctrl := Inr bad_handle_class\<rparr>" ValueError _ "''Gnome-calculator''"
        bad_handle_class]
    bad_handle_class_line bad_handle_class_scan
    lookup_failure_absent
    [of "calm\<lparr>wmctrl := Inl (CalledProcessError 1)\<rparr>" "CalledProcessError 1" 12345
        "''Gnome-calculator''"]
    lookup_failure_absent
    [of "calm\<lparr>wmctrl := Inr bad_handle\<rparr>" ValueError 12345 _ bad_handle]
    bad_handle_line bad_handle_scan
  by (simp add: calm_def del: scan_pid.simps scan_class.simps)

section \<open>Lines the lookup cannot read\<close>

lemma superscript_lines:
  "splitlines superscript_then_match = [superscript_line, calculator_by_pid]"
  by (simp add: superscript_then_match_def superscript_line_def calculator_by_pid_def text_eval)

lemma superscript_fields:
  "split_ws 4 superscript_line = [''0x02400001'', ''0'', [CHR 0xB2], ''host'', ''Terminal'']"
  by (simp add: superscript_line_def text_eval split_ws_numeral)

lemma superscript_field: "isdigit [CHR 0xB2] \<and> int10 4300 [CHR 0xB2] = Inl ValueError"
  by (simp add: text_eval)

text \<open>
  Claim C10 at a listing whose first line has a third field that is not made of decimal
  digits, the superscript two, and whose second line carries the process id looked for:
  \<^verbatim>\<open>isdigit\<close> accepts the field, \<^verbatim>\<open>int\<close> raises \<^verbatim>\<open>ValueError\<close>, and the lookup ends
  with absent and a printed error; the second line is never read.
\<close>

theorem superscript_pid_field_stops_scan:
  "splitlines superscript_then_match = [superscript_line, calculator_by_pid] \<and>
   split_ws 4 superscript_line ! 2 = [CHR 0xB2] \<and>
   \<not> list_all is_decimal_char (split_ws 4 superscript_line ! 2) \<and>
   pid_field_matches 4300 12345 calculator_by_pid \<and>
   find_window_by_pid (calm\<lparr>wmctrl := Inr superscript_then_match\<rparr>) 12345 =
     ([CheckOutput wmctrl_lp, Print ''Error finding window by pid'' (Some ValueError)], None)"
  using superscript_field calculator_line_matches
  by (simp add: find_window_by_pid_def calm_def superscript_lines superscript_fields
      is_decimal_char_def ord_def del: split_ws.simps)

section \<open>Quit\<close>

lemma on_quit_state: "snd (snd (on_quit env s)) = s"
  by (cases "terminate env"; cases "wait env"; cases "kill env") (simp_all add: on_quit_def)

text \<open>
  The order of the calls of \<^verbatim>\<open>on_quit\<close> when the process is alive: the poll, then the
  request to terminate; a kill exactly when the request raised nothing and the wait timed
  out, and then after the request.
\<close>

lemma on_quit_alive:
  "running env \<Longrightarrow>
     take 2 (fst (on_quit env s)) = [Poll (process s), Terminate (process s)] \<and>
     before (Terminate (process s)) (Kill (process s)) (fst (on_quit env s)) \<and>
     (Kill (process s) \<in> set (fst (on_quit env s)) \<longleftrightarrow>
        terminate env = None \<and> wait env = TimedOut) \<and>
     (Wait (process s) 5000 \<in> set (fst (on_quit env s)) \<longleftrightarrow> terminate env = None)"
  by (cases "terminate env"; cases "wait env"; cases "kill env") (simp_all add: on_quit_def)

lemma quit_app_alive:
  "app_process a = Some p \<Longrightarrow> running env \<Longrightarrow>
     take 2 (fst (quit_app env a)) = [Poll p, Terminate p] \<and>
     before (Terminate p) (Kill p) (fst (quit_app env a)) \<and>
     (Kill p \<in> set (fst (quit_app env a)) \<longleftrightarrow> terminate env = None \<and> wait env = TimedOut) \<and>
     (Wait p 3000 \<in> set (fst (quit_app env a)) \<longleftrightarrow> terminate env = None)"
  by (cases "terminate env"; cases "wait env") (simp_all add: quit_app_def)

text \<open>
  \<^verbatim>\<open>on_quit\<close> asks the main loop to quit, as the last thing it does, unless the kill
  raises; then the exception leaves it and the main loop is not asked to quit.
\<close>

lemma on_quit_ends:
  "fst (snd (on_quit env s)) = None \<Longrightarrow> last (fst (on_quit env s)) = MainQuit"
  by (cases "terminate env"; cases "wait env"; cases "kill env")
     (simp_all add: on_quit_def split: if_splits)

lemma on_quit_raises:
  "fst (snd (on_quit env s)) = Some e \<longleftrightarrow>
     running env \<and> terminate env = None \<and> wait env = TimedOut \<and>
     (\<exists>x. kill env = Some x \<and> e = OSError x)"
  by (cases "terminate env"; cases "wait env"; cases "kill env")
     (auto simp add: on_quit_def)

lemma on_quit_raised:
  "fst (snd (on_quit env s)) = Some e \<Longrightarrow>
     MainQuit \<notin> set (fst (on_quit env s)) \<and> last (fst (on_quit env s)) = Kill (process s)"
  by (cases "terminate env"; cases "wait env"; cases "kill env")
     (simp_all add: on_quit_def split: if_splits)

text \<open>
  Claim C4 fails when the kill raises. The process is alive, the request to terminate
  raises nothing, the wait times out and \<^verbatim>\<open>kill\<close> raises \<^verbatim>\<open>PermissionError\<close>. The call
  of \<^verbatim>\<open>kill\<close> stands in the handler of \<^verbatim>\<open>TimeoutExpired\<close>, where the \<^verbatim>\<open>try\<close> does not
  reach: the exception leaves \<^verbatim>\<open>on_quit\<close> and \<^verbatim>\<open>Gtk.main_quit()\<close> is not called. In
  \<^verbatim>\<open>multi_app_tray\<close> the application that comes next in the list is not handled either.
  When it is \<^verbatim>\<open>terminate\<close> that raises the same error, the handler prints it and the main
  loop is asked to quit, as the claim has it.
\<close>

theorem quit_kill_raises:
  "running (calm\<lparr>wait := TimedOut, kill := Some PermissionDenied\<rparr>) \<and>
   on_quit (calm\<lparr>wait := TimedOut, kill := Some PermissionDenied\<rparr>) calculator =
     ([Poll 12345, Terminate 12345, Wait 12345 5000,
       Print ''Process did not terminate in time; force killing it.'' None, Kill 12345],
      Some (OSError PermissionDenied), calculator) \<and>
   multi_on_quit (\<lambda>i. calm\<lparr>wait := TimedOut, kill := Some PermissionDenied\<rparr>)
       [calculator_app, terminal_app] =
     ([Poll 12345, Terminate 12345, Wait 12345 3000,
       Print ''Process Calculator did not terminate in time; killing it.'' None, Kill 12345],
      Some (OSError PermissionDenied)) \<and>
   on_quit (calm\<lparr>terminate := Some PermissionDenied\<rparr>) calculator =
     ([Poll 12345, Terminate 12345,
       Print ''Error while terminating process'' (Some (OSError PermissionDenied)), MainQuit],
      None, calculator) \<and>
   multi_on_quit (\<lambda>i. calm\<lparr>terminate := Some PermissionDenied\<rparr>)
       [calculator_app, terminal_app] =
     ([Poll 12345, Terminate 12345,
       Print ''Error while terminating Calculator'' (Some (OSError PermissionDenied)),
       Poll 23456, Terminate 23456,
       Print ''Error while terminating Terminal'' (Some (OSError PermissionDenied)),
       MainQuit], None)"
  by (simp add: on_quit_def multi_on_quit_def quit_app_def calm_def calculator_def
      calculator_app_def terminal_app_def)

section \<open>The poll loop\<close>

lemma find_window_by_pid_events:
  "list_all (\<lambda>e. \<not> is_Popen e \<and> \<not> hides e \<and> e \<noteq> MainQuit) (fst (find_window_by_pid env p))"
  by (simp add: find_window_by_pid_def hides_def split: sum.splits)

lemma find_window_by_class_events:
  "list_all (\<lambda>e. \<not> is_Popen e \<and> \<not> hides e \<and> e \<noteq> MainQuit)
     (fst (find_window_by_class_least k env m))"
  by (simp add: find_window_by_class_least_def hides_def split: sum.splits)

lemma lookup_events:
  "list_all (\<lambda>e. \<not> is_Popen e \<and> \<not> hides e \<and> e \<noteq> MainQuit) (fst (lookup env s))"
  by (simp add: lookup_matcher find_window_by_pid_events find_window_by_class_events
      find_window_by_class_def split: option.splits)

lemma minimize_window_events:
  "list_all (\<lambda>e. \<not> is_Popen e \<and> e \<noteq> MainQuit) (fst (minimize_window env s))"
  by (simp add: minimize_window_def unmap_window_def split: sum.splits option.splits)

lemma minimize_window_state: "snd (minimize_window env s) = s"
  by (simp add: minimize_window_def unmap_window_def split: sum.splits option.splits)

lemma launch_process_started:
  assumes "popen env = Inr p"
  shows "\<exists>es. launch_process env s =
           (Popen (cmd s) # Sleep 2000 # es, None,
            s\<lparr>process := p, pid := p,
              window_id := snd (lookup env (s\<lparr>process := p, pid := p\<rparr>)),
              first_launch := False\<rparr>) \<and>
           list_all (\<lambda>e. \<not> is_Popen e \<and> e \<noteq> MainQuit) es \<and>
           (\<not> first_launch s \<longrightarrow> list_all (\<lambda>e. \<not> hides e) es)"
proof -
  let ?s1 = "s\<lparr>process := p, pid := p\<rparr>"
  let ?s2 = "?s1\<lparr>window_id := snd (lookup env ?s1)\<rparr>"
  have l: "list_all (\<lambda>e. \<not> is_Popen e \<and> \<not> hides e \<and> e \<noteq> MainQuit) (fst (lookup env ?s1))"
    by (rule lookup_events)
  have m: "list_all (\<lambda>e. \<not> is_Popen e \<and> e \<noteq> MainQuit) (fst (minimize_window env ?s2))"
    by (rule minimize_window_events)
  have st: "snd (minimize_window env ?s2) = ?s2"
    by (rule minimize_window_state)
  show ?thesis
    using assms l m st
    by (cases "lookup env ?s1"; cases "minimize_window env ?s2")
       (auto simp add: launch_process_def Let_def list_all_iff)
qed

lemma launch_process_failed:
  "popen env = Inl e \<Longrightarrow> launch_process env s = ([Popen (cmd s)], Some e, s)"
  by (simp add: launch_process_def)

lemma launch_process_ok:
  assumes "popen env = Inr p"
  shows "launch_process env s =
     (Popen (cmd s) # Sleep 2000 # fst (lookup env (s\<lparr>process := p, pid := p\<rparr>)) @
        (if first_launch s \<and> truthy (snd (lookup env (s\<lparr>process := p, pid := p\<rparr>)))
         then fst (minimize_window env
                (s\<lparr>process := p, pid := p,
                   window_id := snd (lookup env (s\<lparr>process := p, pid := p\<rparr>))\<rparr>))
         else []),
      None,
      s\<lparr>process := p, pid := p,
        window_id := snd (lookup env (s\<lparr>process := p, pid := p\<rparr>)),
        first_launch := False\<rparr>)"
proof -
  let ?s1 = "s\<lparr>process := p, pid := p\<rparr>"
  let ?s2 = "?s1\<lparr>window_id := snd (lookup env ?s1)\<rparr>"
  have "snd (minimize_window env ?s2) = ?s2" by (rule minimize_window_state)
  with assms show ?thesis
    by (cases "lookup env ?s1"; cases "minimize_window env ?s2")
       (simp add: launch_process_def Let_def)
qed

lemma lookup_polls: "filter is_Poll (fst (lookup env s)) = []"
  by (simp add: lookup_matcher find_window_by_pid_def find_window_by_class_def
      find_window_by_class_least_def split: option.splits sum.splits)

lemma minimize_window_polls: "filter is_Poll (fst (minimize_window env s)) = []"
  by (simp add: minimize_window_def unmap_window_def split: sum.splits option.splits)

lemma launch_process_polls: "filter is_Poll (fst (launch_process env s)) = []"
  by (cases "popen env")
     (simp_all add: launch_process_failed launch_process_ok lookup_polls minimize_window_polls)

lemma launch_process_persist:
  "persist_on_exit (snd (snd (launch_process env s))) = persist_on_exit s"
  by (cases "popen env") (simp_all add: launch_process_failed launch_process_ok)

lemma launch_process_outcome:
  "fst (snd (launch_process env s)) = (case popen env of Inl e \<Rightarrow> Some e | Inr p \<Rightarrow> None)"
  by (cases "popen env") (simp_all add: launch_process_failed launch_process_ok)

lemma launch_process_one_Popen:
  "filter is_Popen (fst (launch_process env s)) = [Popen (cmd s)] \<and>
   MainQuit \<notin> set (fst (launch_process env s))"
proof (cases "popen env")
  case (Inl e)
  then show ?thesis by (simp add: launch_process_failed)
next
  case (Inr p)
  from launch_process_started [OF Inr, of s] obtain es where
    "fst (launch_process env s) = Popen (cmd s) # Sleep 2000 # es"
    "list_all (\<lambda>e. \<not> is_Popen e \<and> e \<noteq> MainQuit) es"
    by force
  then show ?thesis
    by (auto simp: list_all_iff filter_empty_conv)
qed

text \<open>One pass of the loop that finds the process exited, with \<^verbatim>\<open>persist_on_exit\<close> set.\<close>

lemma monitor_relaunch:
  assumes "\<not> running env" and "persist_on_exit s"
  shows "monitor_process (env # envs) s =
     (case popen env of
        Inl e \<Rightarrow> ([Poll (process s), Popen (cmd s)], Raised e, s)
      | Inr p \<Rightarrow>
          (Poll (process s) # fst (launch_process env s) @
             Sleep (poll_interval s) #
             fst (monitor_process envs (snd (snd (launch_process env s)))),
           snd (monitor_process envs (snd (snd (launch_process env s))))))"
proof (cases "popen env")
  case (Inl e)
  with assms show ?thesis by (simp add: launch_process_failed)
next
  case (Inr p)
  have "poll_interval (snd (snd (launch_process env s))) = poll_interval s"
    by (simp add: launch_process_ok [OF Inr] poll_interval_def)
  moreover have "fst (snd (launch_process env s)) = None"
    by (simp add: launch_process_outcome Inr)
  ultimately show ?thesis
    using assms Inr
    by (cases "launch_process env s") (simp add: case_prod_beta)
qed

lemma monitor_persist:
  assumes "persist_on_exit s"
    and "\<forall>env\<in>set envs. \<not> running env \<longrightarrow> starts env"
  shows "fst (snd (monitor_process envs s)) = Looping \<and>
         relaunches (fst (monitor_process envs s)) =
           length (filter (\<lambda>env. \<not> running env) envs) \<and>
         polls (fst (monitor_process envs s)) = length envs \<and>
         MainQuit \<notin> set (fst (monitor_process envs s)) \<and>
         persist_on_exit (snd (snd (monitor_process envs s)))"
  using assms
proof (induction envs arbitrary: s)
  case Nil
  then show ?case by (simp add: relaunches_def polls_def)
next
  case (Cons env envs)
  show ?case
  proof (cases "running env")
    case True
    from Cons.prems have "\<forall>env\<in>set envs. \<not> running env \<longrightarrow> starts env" by simp
    from Cons.IH [OF Cons.prems(1) this] True show ?thesis
      by (simp add: case_prod_beta relaunches_def polls_def)
  next
    case False
    with Cons.prems obtain p where p: "popen env = Inr p"
      by (cases "popen env") (auto simp: starts_def)
    let ?s' = "snd (snd (launch_process env s))"
    from Cons.prems(1) have "persist_on_exit ?s'"
      by (simp add: launch_process_persist)
    moreover from Cons.prems have "\<forall>env\<in>set envs. \<not> running env \<longrightarrow> starts env" by simp
    ultimately have ih: "fst (snd (monitor_process envs ?s')) = Looping \<and>
         relaunches (fst (monitor_process envs ?s')) =
           length (filter (\<lambda>env. \<not> running env) envs) \<and>
         polls (fst (monitor_process envs ?s')) = length envs \<and>
         MainQuit \<notin> set (fst (monitor_process envs ?s')) \<and>
         persist_on_exit (snd (snd (monitor_process envs ?s')))"
      by (rule Cons.IH)
    from monitor_relaunch [OF False Cons.prems(1), of envs] p
    have "monitor_process (env # envs) s =
          (Poll (process s) # fst (launch_process env s) @
             Sleep (poll_interval s) # fst (monitor_process envs ?s'),
           snd (monitor_process envs ?s'))"
      by simp
    with ih False launch_process_one_Popen [of env s] launch_process_polls [of env s]
    show ?thesis
      by (simp add: relaunches_def polls_def)
  qed
qed

text \<open>
  A relaunch whose \<^verbatim>\<open>Popen\<close> raises ends the loop: the exception leaves
  \<^verbatim>\<open>monitor_process\<close>, and the passes that would follow do not happen.
\<close>

lemma monitor_relaunch_raises:
  assumes "persist_on_exit s"
    and "\<forall>env\<in>set pre. \<not> running env \<longrightarrow> starts env"
    and "\<not> running env" and "popen env = Inl e"
  shows "fst (snd (monitor_process (pre @ env # post) s)) = Raised e \<and>
         polls (fst (monitor_process (pre @ env # post) s)) = Suc (length pre) \<and>
         MainQuit \<notin> set (fst (monitor_process (pre @ env # post) s))"
  using assms(1,2)
proof (induction pre arbitrary: s)
  case Nil
  from monitor_relaunch [OF assms(3) Nil.prems(1), of post] assms(4) show ?case
    by (simp add: polls_def del: monitor_process.simps)
next
  case (Cons x pre)
  show ?case
  proof (cases "running x")
    case True
    from Cons.prems have "\<forall>env\<in>set pre. \<not> running env \<longrightarrow> starts env" by simp
    from Cons.IH [OF Cons.prems(1) this] True show ?thesis
      by (simp add: case_prod_beta polls_def)
  next
    case False
    with Cons.prems obtain p where p: "popen x = Inr p"
      by (cases "popen x") (auto simp: starts_def)
    let ?s' = "snd (snd (launch_process x s))"
    from Cons.prems(1) have "persist_on_exit ?s'"
      by (simp add: launch_process_persist)
    moreover from Cons.prems have "\<forall>env\<in>set pre. \<not> running env \<longrightarrow> starts env" by simp
    ultimately have ih: "fst (snd (monitor_process (pre @ env # post) ?s')) = Raised e \<and>
         polls (fst (monitor_process (pre @ env # post) ?s')) = Suc (length pre) \<and>
         MainQuit \<notin> set (fst (monitor_process (pre @ env # post) ?s'))"
      by (rule Cons.IH)
    from monitor_relaunch [OF False Cons.prems(1), of "pre @ env # post"] p
    have "monitor_process ((x # pre) @ env # post) s =
          (Poll (process s) # fst (launch_process x s) @
             Sleep (poll_interval s) # fst (monitor_process (pre @ env # post) ?s'),
           snd (monitor_process (pre @ env # post) ?s'))"
      by simp
    with ih launch_process_one_Popen [of x s] launch_process_polls [of x s]
    show ?thesis
      by (simp add: polls_def)
  qed
qed

lemma monitor_alive:
  "\<forall>env\<in>set pre. running env \<Longrightarrow>
   monitor_process (pre @ rest) s =
     (concat (map (\<lambda>env. [Poll (process s), Sleep (poll_interval s)]) pre) @
        fst (monitor_process rest s),
      snd (monitor_process rest s))"
  by (induction pre) (simp_all add: case_prod_beta)

text \<open>
  Claim C5, as amended. Take any run of the loop, one answer of the world for each pass.
  With \<^verbatim>\<open>persist_on_exit\<close> set and every \<^verbatim>\<open>Popen\<close> of a pass that finds the process
  exited returning a process: every pass takes place, the processes started are as many
  as the passes that found the process exited, the main loop is never asked to quit and
  the loop is still looping. With \<^verbatim>\<open>persist_on_exit\<close> set and a first pass whose
  \<^verbatim>\<open>Popen\<close> raises: the exception leaves the loop at that pass. With
  \<^verbatim>\<open>persist_on_exit\<close> unset, the first pass that finds the process exited asks the main
  loop to quit and returns: nothing is launched and later passes do not happen. A run
  whose passes all find the process alive polls and sleeps, and is still looping.
\<close>

theorem monitor_every_run:
  "(persist_on_exit s \<and> (\<forall>env\<in>set envs. \<not> running env \<longrightarrow> starts env) \<longrightarrow>
      fst (snd (monitor_process envs s)) = Looping \<and>
      relaunches (fst (monitor_process envs s)) = length (filter (\<lambda>env. \<not> running env) envs) \<and>
      polls (fst (monitor_process envs s)) = length envs \<and>
      MainQuit \<notin> set (fst (monitor_process envs s))) \<and>
   (persist_on_exit s \<and> (\<forall>env\<in>set pre. \<not> running env \<longrightarrow> starts env) \<and>
    \<not> running env \<and> popen env = Inl e \<longrightarrow>
      fst (snd (monitor_process (pre @ env # post) s)) = Raised e \<and>
      polls (fst (monitor_process (pre @ env # post) s)) = Suc (length pre) \<and>
      MainQuit \<notin> set (fst (monitor_process (pre @ env # post) s))) \<and>
   (\<not> persist_on_exit s \<and> (\<forall>env\<in>set pre. running env) \<and> \<not> running env \<longrightarrow>
      monitor_process (pre @ env # post) s =
        (concat (map (\<lambda>env. [Poll (process s), Sleep (poll_interval s)]) pre) @
           [Poll (process s), MainQuit],
         Returned, s)) \<and>
   ((\<forall>env\<in>set envs. running env) \<longrightarrow>
      monitor_process envs s =
        (concat (map (\<lambda>env. [Poll (process s), Sleep (poll_interval s)]) envs), Looping, s))"
proof (intro conjI impI)
  assume "persist_on_exit s \<and> (\<forall>env\<in>set envs. \<not> running env \<longrightarrow> starts env)"
  then have "fst (snd (monitor_process envs s)) = Looping \<and>
         relaunches (fst (monitor_process envs s)) =
           length (filter (\<lambda>env. \<not> running env) envs) \<and>
         polls (fst (monitor_process envs s)) = length envs \<and>
         MainQuit \<notin> set (fst (monitor_process envs s)) \<and>
         persist_on_exit (snd (snd (monitor_process envs s)))"
    by (intro monitor_persist) simp_all
  then show "fst (snd (monitor_process envs s)) = Looping"
    and "relaunches (fst (monitor_process envs s)) = length (filter (\<lambda>env. \<not> running env) envs)"
    and "polls (fst (monitor_process envs s)) = length envs"
    and "MainQuit \<notin> set (fst (monitor_process envs s))"
    by simp_all
next
  assume "persist_on_exit s \<and> (\<forall>env\<in>set pre. \<not> running env \<longrightarrow> starts env) \<and>
    \<not> running env \<and> popen env = Inl e"
  then have "fst (snd (monitor_process (pre @ env # post) s)) = Raised e \<and>
         polls (fst (monitor_process (pre @ env # post) s)) = Suc (length pre) \<and>
         MainQuit \<notin> set (fst (monitor_process (pre @ env # post) s))"
    by (intro monitor_relaunch_raises) simp_all
  then show "fst (snd (monitor_process (pre @ env # post) s)) = Raised e"
    and "polls (fst (monitor_process (pre @ env # post) s)) = Suc (length pre)"
    and "MainQuit \<notin> set (fst (monitor_process (pre @ env # post) s))"
    by simp_all
next
  assume "\<not> persist_on_exit s \<and> (\<forall>env\<in>set pre. running env) \<and> \<not> running env"
  then show "monitor_process (pre @ env # post) s =
        (concat (map (\<lambda>env. [Poll (process s), Sleep (poll_interval s)]) pre) @
           [Poll (process s), MainQuit],
         Returned, s)"
    using monitor_alive [where pre = pre and s = s and rest = "env # post"] by simp
next
  assume "\<forall>env\<in>set envs. running env"
  then show "monitor_process envs s =
        (concat (map (\<lambda>env. [Poll (process s), Sleep (poll_interval s)]) envs), Looping, s)"
    using monitor_alive [where pre = envs and s = s and rest = "[]"] by simp
qed

text \<open>
  With \<^verbatim>\<open>persist_on_exit\<close> set, a run of three passes, of which the first and the third
  find the process exited, starts two processes and is still looping; when the
  \<^verbatim>\<open>Popen\<close> of the second pass raises, the loop ends there. With it unset, a run whose
  second pass finds the process exited ends at that pass, and two passes that find the
  process alive leave the loop looping.
\<close>

theorem monitor_every_run_witness:
  "fst (snd (monitor_process [calm\<lparr>running := False\<rparr>, calm, calm\<lparr>running := False\<rparr>]
        (calculator\<lparr>persist_on_exit := True\<rparr>))) = Looping \<and>
   relaunches (fst (monitor_process [calm\<lparr>running := False\<rparr>, calm, calm\<lparr>running := False\<rparr>]
        (calculator\<lparr>persist_on_exit := True\<rparr>))) = 2 \<and>
   polls (fst (monitor_process [calm\<lparr>running := False\<rparr>, calm, calm\<lparr>running := False\<rparr>]
        (calculator\<lparr>persist_on_exit := True\<rparr>))) = 3 \<and>
   fst (snd (monitor_process
        [calm, calm\<lparr>running := False, popen := Inl (OSError FileNotFound)\<rparr>, calm]
        (calculator\<lparr>persist_on_exit := True\<rparr>))) = Raised (OSError FileNotFound) \<and>
   monitor_process [calm, calm\<lparr>running := False\<rparr>, calm\<lparr>running := False\<rparr>] calculator =
     ([Poll 12345, Sleep 5000, Poll 12345, MainQuit], Returned, calculator) \<and>
   monitor_process [calm, calm] calculator =
     ([Poll 12345, Sleep 5000, Poll 12345, Sleep 5000], Looping, calculator)"
  using monitor_every_run
    [where s = "calculator\<lparr>persist_on_exit := True\<rparr>"
       and envs = "[calm\<lparr>running := False\<rparr>, calm, calm\<lparr>running := False\<rparr>]"]
    monitor_every_run
    [where s = "calculator\<lparr>persist_on_exit := True\<rparr>" and pre = "[calm]"
       and env = "calm\<lparr>running := False, popen := Inl (OSError FileNotFound)\<rparr>"
       and e = "OSError FileNotFound" and post = "[calm]"]
    monitor_every_run
    [where s = calculator and pre = "[calm]" and env = "calm\<lparr>running := False\<rparr>"
       and post = "[calm\<lparr>running := False\<rparr>]"]
    monitor_every_run [where s = calculator and envs = "[calm, calm]"]
  by (simp add: calm_def calculator_def starts_def poll_interval_def)

text \<open>
  Claim C5 as stated fails when a relaunch cannot start the process. With
  \<^verbatim>\<open>persist_on_exit\<close> set, the first pass finds the process exited and \<^verbatim>\<open>Popen\<close>
  raises \<^verbatim>\<open>FileNotFoundError\<close>: the exception leaves \<^verbatim>\<open>monitor_process\<close>, no process
  has been started and the loop no longer runs; the second pass, which would have found
  the process exited as well, does not take place.
\<close>

theorem monitor_relaunch_raises_counterexample:
  "persist_on_exit (calculator\<lparr>persist_on_exit := True\<rparr>) \<and>
   \<not> running (calm\<lparr>running := False, popen := Inl (OSError FileNotFound)\<rparr>) \<and>
   monitor_process
       [calm\<lparr>running := False, popen := Inl (OSError FileNotFound)\<rparr>, calm\<lparr>running := False\<rparr>]
       (calculator\<lparr>persist_on_exit := True\<rparr>) =
     ([Poll 12345, Popen [''gnome-calculator'']], Raised (OSError FileNotFound),
      calculator\<lparr>persist_on_exit := True\<rparr>)"
  by (simp add: launch_process_def calm_def calculator_def)

section \<open>The first launch\<close>

lemma truthy_iff: "truthy w \<longleftrightarrow> (\<exists>h. w = Some h \<and> h \<noteq> 0)"
  by (simp add: truthy_def split: option.splits)

lemma lookup_reads:
  "variant s = variant s' \<Longrightarrow> wm_class s = wm_class s' \<Longrightarrow> pid s = pid s' \<Longrightarrow>
   lookup env s = lookup env s'"
  by (simp add: lookup_def find_window_def split: variant.splits option.splits)

lemma minimize_window_known:
  "truthy (window_id s) \<Longrightarrow>
   \<exists>es. fst (minimize_window env s) = Run windowminimize (window_id s) # es \<and>
        filter is_minimize es = [] \<and> length (filter is_unmap es) \<le> 1"
  by (simp add: minimize_window_def unmap_window_def split: sum.splits option.splits)

lemma launch_process_later:
  "\<not> first_launch s \<Longrightarrow>
   list_all (\<lambda>e. \<not> hides e) (fst (launch_process env s)) \<and>
   \<not> first_launch (snd (snd (launch_process env s)))"
proof (cases "popen env")
  case (Inl e)
  then show "\<not> first_launch s \<Longrightarrow> ?thesis"
    by (simp add: launch_process_failed hides_def)
next
  case (Inr p)
  have "list_all (\<lambda>e. \<not> is_Popen e \<and> \<not> hides e \<and> e \<noteq> MainQuit)
          (fst (lookup env (s\<lparr>process := p, pid := p\<rparr>)))"
    by (rule lookup_events)
  then have "list_all (\<lambda>e. \<not> hides e) (fst (lookup env (s\<lparr>process := p, pid := p\<rparr>)))"
    by (simp add: list_all_iff)
  then show "\<not> first_launch s \<Longrightarrow> ?thesis"
    by (simp add: launch_process_ok [OF Inr] hides_def)
qed

lemma step_first_launch: "\<not> first_launch s \<Longrightarrow> \<not> first_launch (step a s)"
proof (cases a)
  case (Pair act env)
  assume nf: "\<not> first_launch s"
  show ?thesis
  proof (cases act)
    case Show
    with Pair nf launch_process_later [of s env] show ?thesis
      by (simp add: on_show_def case_prod_beta split: sum.splits)
  next
    case Hide
    with Pair nf show ?thesis
      by (simp add: on_hide_def case_prod_beta minimize_window_state)
  next
    case Quit
    with Pair nf show ?thesis
      by (simp add: on_quit_state)
  next
    case Tick
    with Pair nf launch_process_later [of s env] show ?thesis
      by (cases "launch_process env s") (auto split: option.splits)
  qed
qed

lemma run_first_launch: "\<not> first_launch s \<Longrightarrow> \<not> first_launch (run sched s)"
  by (induction sched arbitrary: s) (simp_all add: step_first_launch del: step.simps)

lemma relaunch_hides_nothing:
  assumes "\<not> first_launch s"
  shows "list_all (\<lambda>e. \<not> hides e) (fst (launch_process env s))"
    and "\<not> running env \<Longrightarrow> list_all (\<lambda>e. \<not> hides e) (fst (on_show env s))"
    and "\<not> running env \<Longrightarrow> list_all (\<lambda>e. \<not> hides e) (fst (monitor_process [env] s))"
proof -
  from assms show l: "list_all (\<lambda>e. \<not> hides e) (fst (launch_process env s))"
    by (simp add: launch_process_later)
  from l show "\<not> running env \<Longrightarrow> list_all (\<lambda>e. \<not> hides e) (fst (on_show env s))"
    by (simp add: on_show_def case_prod_beta hides_def)
  from l show "\<not> running env \<Longrightarrow> list_all (\<lambda>e. \<not> hides e) (fst (monitor_process [env] s))"
    by (cases "launch_process env s") (auto simp: hides_def split: option.splits)
qed

lemma greeting_events:
  "filter is_minimize (greeting v nm) = [] \<and> filter is_unmap (greeting v nm) = [] \<and>
   (\<forall>e\<in>set (greeting v nm). \<not> hides e)"
  by (simp add: greeting_def hides_def split: variant.splits)

lemma init_first_launch:
  assumes "init v c nm persist wmc env0 = (es0, Inr s0)"
  shows "take (length (greeting v nm) + 2) es0 = greeting v nm @ [Popen c, Sleep 2000]"
    and "(\<exists>e\<in>set es0. hides e) \<longleftrightarrow> (\<exists>h. window_id s0 = Some h \<and> h \<noteq> 0)"
    and "window_id s0 = snd (lookup env0 s0)"
    and "length (filter is_minimize es0) \<le> 1"
    and "length (filter is_unmap es0) \<le> 1"
    and "\<not> first_launch s0"
proof -
  let ?s = "\<lparr>variant = v, cmd = c, wm_class = wmc, persist_on_exit = persist,
              first_launch = True, process = 0, pid = 0, window_id = None\<rparr>"
  from assms obtain p where p: "popen env0 = Inr p"
    by (cases "popen env0") (auto simp: init_def launch_process_def)
  let ?s1 = "?s\<lparr>process := p, pid := p\<rparr>"
  let ?w = "snd (lookup env0 ?s1)"
  let ?s2 = "?s1\<lparr>window_id := ?w\<rparr>"
  let ?m = "if truthy ?w then fst (minimize_window env0 ?s2) else []"
  from assms launch_process_ok [OF p, of ?s]
  have es0: "es0 = greeting v nm @ Popen c # Sleep 2000 # fst (lookup env0 ?s1) @ ?m"
    and s0: "s0 = ?s2\<lparr>first_launch := False\<rparr>"
    by (simp_all add: init_def)
  have lk: "list_all (\<lambda>e. \<not> is_Popen e \<and> \<not> hides e \<and> e \<noteq> MainQuit) (fst (lookup env0 ?s1))"
    by (rule lookup_events)
  then have lk': "filter is_minimize (fst (lookup env0 ?s1)) = []"
    "filter is_unmap (fst (lookup env0 ?s1)) = []" "\<forall>e\<in>set (fst (lookup env0 ?s1)). \<not> hides e"
    by (auto simp: list_all_iff filter_empty_conv hides_def)
  have m: "(\<exists>e\<in>set ?m. hides e) \<longleftrightarrow> truthy ?w" "length (filter is_minimize ?m) \<le> 1"
    "length (filter is_unmap ?m) \<le> 1"
  proof -
    show "(\<exists>e\<in>set ?m. hides e) \<longleftrightarrow> truthy ?w"
    proof (cases "truthy ?w")
      case True
      with minimize_window_known [of ?s2 env0] obtain es where
        "fst (minimize_window env0 ?s2) = Run windowminimize ?w # es" by auto
      with True show ?thesis by (simp add: hides_def)
    next
      case False
      then show ?thesis by simp
    qed
    show "length (filter is_minimize ?m) \<le> 1"
    proof (cases "truthy ?w")
      case True
      with minimize_window_known [of ?s2 env0] obtain es where
        "fst (minimize_window env0 ?s2) = Run windowminimize ?w # es" "filter is_minimize es = []"
        by auto
      with True show ?thesis by simp
    next
      case False
      then show ?thesis by simp
    qed
    show "length (filter is_unmap ?m) \<le> 1"
    proof (cases "truthy ?w")
      case True
      with minimize_window_known [of ?s2 env0] obtain es where
        "fst (minimize_window env0 ?s2) = Run windowminimize ?w # es"
        "length (filter is_unmap es) \<le> 1"
        by auto
      with True show ?thesis by simp
    next
      case False
      then show ?thesis by simp
    qed
  qed
  note g = greeting_events [of v nm]
  from es0 show "take (length (greeting v nm) + 2) es0 = greeting v nm @ [Popen c, Sleep 2000]"
    by simp
  from s0 show "\<not> first_launch s0" by simp
  from s0 have "lookup env0 s0 = lookup env0 ?s1" by (intro lookup_reads) simp_all
  with s0 show "window_id s0 = snd (lookup env0 s0)" by simp
  from es0 lk' m(2) g show "length (filter is_minimize es0) \<le> 1" by simp
  from es0 lk' m(3) g show "length (filter is_unmap es0) \<le> 1" by simp
  from s0 have "window_id s0 = ?w" by simp
  with es0 lk'(3) m(1) g show "(\<exists>e\<in>set es0. hides e) \<longleftrightarrow> (\<exists>h. window_id s0 = Some h \<and> h \<noteq> 0)"
    by (auto simp: truthy_iff hides_def)
qed

text \<open>
  Claim C6, as amended. When the constructor returns, it has printed its greeting (in
  \<^verbatim>\<open>minimize_to_tray_wrapper\<close>), and its launch has started the process, slept for the
  settle delay and then looked the window up; it has hidden the window (a minimize command, and
  an unmap call unless that command could not be started; each at most once) if and only
  if the lookup returned a handle other than 0. From then on \<^verbatim>\<open>first_launch\<close> is
  false, whatever menu entries are activated and whatever the poll loop does, and no later
  launch hides anything: not \<^verbatim>\<open>launch_process\<close> itself, not the show action on an
  exited process, not a pass of the poll loop that finds the process exited.
\<close>

theorem first_launch_hides_once:
  "init v c nm persist wmc env0 = (es0, Inr s0) \<longrightarrow>
     take (length (greeting v nm) + 2) es0 = greeting v nm @ [Popen c, Sleep 2000] \<and>
     ((\<exists>e\<in>set es0. hides e) \<longleftrightarrow> (\<exists>h. window_id s0 = Some h \<and> h \<noteq> 0)) \<and>
     window_id s0 = snd (lookup env0 s0) \<and>
     length (filter is_minimize es0) \<le> 1 \<and> length (filter is_unmap es0) \<le> 1 \<and>
     \<not> first_launch (run sched s0) \<and>
     list_all (\<lambda>e. \<not> hides e) (fst (launch_process env (run sched s0))) \<and>
     (\<not> running env \<longrightarrow>
        list_all (\<lambda>e. \<not> hides e) (fst (on_show env (run sched s0))) \<and>
        list_all (\<lambda>e. \<not> hides e) (fst (monitor_process [env] (run sched s0))))"
proof
  assume i: "init v c nm persist wmc env0 = (es0, Inr s0)"
  from init_first_launch(6) [OF i] have "\<not> first_launch (run sched s0)"
    by (rule run_first_launch)
  with init_first_launch [OF i] relaunch_hides_nothing [of "run sched s0" env]
  show "take (length (greeting v nm) + 2) es0 = greeting v nm @ [Popen c, Sleep 2000] \<and>
     ((\<exists>e\<in>set es0. hides e) \<longleftrightarrow> (\<exists>h. window_id s0 = Some h \<and> h \<noteq> 0)) \<and>
     window_id s0 = snd (lookup env0 s0) \<and>
     length (filter is_minimize es0) \<le> 1 \<and> length (filter is_unmap es0) \<le> 1 \<and>
     \<not> first_launch (run sched s0) \<and>
     list_all (\<lambda>e. \<not> hides e) (fst (launch_process env (run sched s0))) \<and>
     (\<not> running env \<longrightarrow>
        list_all (\<lambda>e. \<not> hides e) (fst (on_show env (run sched s0))) \<and>
        list_all (\<lambda>e. \<not> hides e) (fst (monitor_process [env] (run sched s0))))"
    by blast
qed

lemma zero_handle_line: "splitlines zero_handle = [zero_handle]"
  by (simp add: zero_handle_def text_eval)

lemma zero_handle_fields:
  "split_ws 4 zero_handle = [''0x00000000'', ''0'', ''12345'', ''host'', ''Calculator'']"
  by (simp add: zero_handle_def text_eval split_ws_numeral)

lemma zero_handle_matches: "pid_field_matches 4300 12345 zero_handle"
  by (simp add: pid_field_matches_def zero_handle_fields text_eval del: split_ws.simps)

lemma zero_handle_value: "handle_of zero_handle = Some 0"
  by (simp add: zero_handle_def text_eval)

lemma zero_handle_found:
  "find_window_by_pid (calm\<lparr>wmctrl := Inr zero_handle\<rparr>) 12345 = ([CheckOutput wmctrl_lp], Some 0)"
  using zero_handle_line zero_handle_matches zero_handle_value
  by (intro single_line_pid_lookup [of _ zero_handle zero_handle]) (simp_all add: calm_def)

lemma init_calculator:
  "init TrayWrapper [''gnome-calculator''] (Some ''Calculator'') False None
       (calm\<lparr>wmctrl := Inr calculator_by_pid\<rparr>) =
     ([Popen [''gnome-calculator''], Sleep 2000, CheckOutput wmctrl_lp,
       Run windowminimize (Some 37748743), XUnmap (Some 37748743)],
      Inr (calculator\<lparr>window_id := Some 37748743\<rparr>))"
  using calculator_found
  by (simp add: init_def greeting_def launch_process_def lookup_def find_window_def
      minimize_window_def unmap_window_def truthy_def calculator_def calm_def)

lemma init_calculator_greeting:
  "init MinimizeToTray [''gnome-calculator''] (Some ''Calculator'') False None
       (calm\<lparr>wmctrl := Inr calculator_by_pid\<rparr>) =
     ([Print ''HERE: Calculator'' None, Popen [''gnome-calculator''], Sleep 2000,
       CheckOutput wmctrl_lp, Run windowminimize (Some 37748743), XUnmap (Some 37748743)],
      Inr (calculator\<lparr>variant := MinimizeToTray, window_id := Some 37748743\<rparr>))"
  using calculator_found
  by (simp add: init_def greeting_def launch_process_def lookup_def find_window_def
      minimize_window_def unmap_window_def truthy_def calculator_def calm_def)

text \<open>
  The first launch with the calculator's line in the listing hides the window 37748743,
  in \<^verbatim>\<open>tray_wrapper\<close> and, after the greeting, in \<^verbatim>\<open>minimize_to_tray_wrapper\<close>. A
  hide and a pass of the poll loop follow, then a show on the exited process, whose launch
  hides nothing.
\<close>

theorem first_launch_hides_once_witness:
  "init TrayWrapper [''gnome-calculator''] (Some ''Calculator'') False None
       (calm\<lparr>wmctrl := Inr calculator_by_pid\<rparr>) =
     ([Popen [''gnome-calculator''], Sleep 2000, CheckOutput wmctrl_lp,
       Run windowminimize (Some 37748743), XUnmap (Some 37748743)],
      Inr (calculator\<lparr>window_id := Some 37748743\<rparr>)) \<and>
   list_all (\<lambda>e. \<not> hides e)
     (fst (on_show (calm\<lparr>running := False, wmctrl := Inr calculator_by_pid\<rparr>)
        (run [(Hide, calm), (Tick, calm\<lparr>running := False\<rparr>)]
           (calculator\<lparr>window_id := Some 37748743\<rparr>)))) \<and>
   init MinimizeToTray [''gnome-calculator''] (Some ''Calculator'') False None
       (calm\<lparr>wmctrl := Inr calculator_by_pid\<rparr>) =
     ([Print ''HERE: Calculator'' None, Popen [''gnome-calculator''], Sleep 2000,
       CheckOutput wmctrl_lp, Run windowminimize (Some 37748743), XUnmap (Some 37748743)],
      Inr (calculator\<lparr>variant := MinimizeToTray, window_id := Some 37748743\<rparr>)) \<and>
   list_all (\<lambda>e. \<not> hides e)
     (fst (monitor_process [calm\<lparr>running := False, wmctrl := Inr calculator_by_pid\<rparr>]
        (run [(Show, calm), (Quit, calm)]
           (calculator\<lparr>variant := MinimizeToTray, window_id := Some 37748743\<rparr>))))"
  using init_calculator init_calculator_greeting
    first_launch_hides_once
      [where v = TrayWrapper and c = "[''gnome-calculator'']" and nm = "Some ''Calculator''"
         and persist = False and wmc = None
         and ?env0.0 = "calm\<lparr>wmctrl := Inr calculator_by_pid\<rparr>"
         and ?es0.0 = "[Popen [''gnome-calculator''], Sleep 2000, CheckOutput wmctrl_lp,
            Run windowminimize (Some 37748743), XUnmap (Some 37748743)]"
         and ?s0.0 = "calculator\<lparr>window_id := Some 37748743\<rparr>"
         and sched = "[(Hide, calm), (Tick, calm\<lparr>running := False\<rparr>)]"
         and env = "calm\<lparr>running := False, wmctrl := Inr calculator_by_pid\<rparr>"]
    first_launch_hides_once
      [where v = MinimizeToTray and c = "[''gnome-calculator'']" and nm = "Some ''Calculator''"
         and persist = False and wmc = None
         and ?env0.0 = "calm\<lparr>wmctrl := Inr calculator_by_pid\<rparr>"
         and ?es0.0 = "[Print ''HERE: Calculator'' None, Popen [''gnome-calculator''],
            Sleep 2000, CheckOutput wmctrl_lp,
            Run windowminimize (Some 37748743), XUnmap (Some 37748743)]"
         and ?s0.0 = "calculator\<lparr>variant := MinimizeToTray, window_id := Some 37748743\<rparr>"
         and sched = "[(Show, calm), (Quit, calm)]"
         and env = "calm\<lparr>running := False, wmctrl := Inr calculator_by_pid\<rparr>"]
  by (simp del: run.simps step.simps monitor_process.simps)

text \<open>
  Claim C6 as stated fails when the listing names the window 0 for the launched process:
  the lookup of the first launch resolves the handle 0, which the condition
  \<^verbatim>\<open>self.first_launch and self.window_id\<close> takes as false, and nothing is hidden.
\<close>

theorem first_launch_zero_handle_counterexample:
  "pid_field_matches 4300 12345 zero_handle \<and> handle_of zero_handle = Some 0 \<and>
   init TrayWrapper [''gnome-calculator''] (Some ''Calculator'') False None
       (calm\<lparr>wmctrl := Inr zero_handle\<rparr>) =
     ([Popen [''gnome-calculator''], Sleep 2000, CheckOutput wmctrl_lp],
      Inr (calculator\<lparr>window_id := Some 0\<rparr>))"
  using zero_handle_found zero_handle_matches zero_handle_value
  by (simp add: init_def greeting_def launch_process_def lookup_def find_window_def
      truthy_def calculator_def calm_def)

section \<open>Minimize\<close>

text \<open>
  Claim C9, as amended, for the single-application wrappers. With a handle other than 0,
  \<^verbatim>\<open>minimize_window\<close> issues the minimize command for it; when that command was
  started (whatever its exit code), the unmap call for the same handle follows, and an
  exception of the unmap call is printed; when the command could not be started, the
  exception is printed and no unmap call is made. With no handle, or the handle 0,
  nothing is issued. The wrapper's fields are unchanged and nothing is raised.
\<close>

theorem minimize_then_unmap:
  "(window_id s = Some h \<and> h \<noteq> 0 \<and> xdotool_minimize env = Inr rc \<longrightarrow>
      minimize_window env s =
        (Run windowminimize (Some h) # XUnmap (Some h) #
           (case xlib_unmap env of
              None \<Rightarrow> []
            | Some e \<Rightarrow> [Print ''Error unmapping window'' (Some e)]), s)) \<and>
   (window_id s = Some h \<and> h \<noteq> 0 \<and> xdotool_minimize env = Inl e \<longrightarrow>
      minimize_window env s =
        ([Run windowminimize (Some h), Print ''Error minimizing window'' (Some e)], s)) \<and>
   (window_id s = None \<or> window_id s = Some 0 \<longrightarrow> minimize_window env s = ([], s))"
  by (auto simp add: minimize_window_def unmap_window_def truthy_def split: option.splits)

theorem minimize_then_unmap_witness:
  "minimize_window calm (calculator\<lparr>window_id := Some 37748743\<rparr>) =
     ([Run windowminimize (Some 37748743), XUnmap (Some 37748743)],
      calculator\<lparr>window_id := Some 37748743\<rparr>) \<and>
   minimize_window (calm\<lparr>xlib_unmap := Some DisplayError\<rparr>)
       (calculator\<lparr>window_id := Some 37748743\<rparr>) =
     ([Run windowminimize (Some 37748743), XUnmap (Some 37748743),
       Print ''Error unmapping window'' (Some DisplayError)],
      calculator\<lparr>window_id := Some 37748743\<rparr>) \<and>
   minimize_window (calm\<lparr>xdotool_minimize := Inl (OSError PermissionDenied)\<rparr>)
       (calculator\<lparr>window_id := Some 37748743\<rparr>) =
     ([Run windowminimize (Some 37748743),
       Print ''Error minimizing window'' (Some (OSError PermissionDenied))],
      calculator\<lparr>window_id := Some 37748743\<rparr>) \<and>
   minimize_window calm calculator = ([], calculator)"
  using minimize_then_unmap [of "calculator\<lparr>window_id := Some 37748743\<rparr>" 37748743 calm 0]
    minimize_then_unmap
      [of "calculator\<lparr>window_id := Some 37748743\<rparr>" 37748743
          "calm\<lparr>xdotool_minimize := Inl (OSError PermissionDenied)\<rparr>" _
          "OSError PermissionDenied"]
    minimize_then_unmap
      [of "calculator\<lparr>window_id := Some 37748743\<rparr>" 37748743
          "calm\<lparr>xlib_unmap := Some DisplayError\<rparr>" 0]
    minimize_then_unmap [of calculator _ calm]
  by (simp add: calm_def calculator_def)

text \<open>
  Claim C9 as stated fails when \<^verbatim>\<open>xdotool\<close> is not installed: a handle is known, the
  minimize command is attempted and raises, and the unmap call is never made, so one
  command is issued, not two.
\<close>

theorem minimize_without_xdotool_counterexample:
  "minimize_window (calm\<lparr>xdotool_minimize := Inl (OSError FileNotFound)\<rparr>)
       (calculator\<lparr>window_id := Some 37748743\<rparr>) =
     ([Run windowminimize (Some 37748743),
       Print ''Error minimizing window'' (Some (OSError FileNotFound))],
      calculator\<lparr>window_id := Some 37748743\<rparr>)"
  by (simp add: minimize_window_def truthy_def calm_def calculator_def)

section \<open>Hide\<close>

text \<open>
  \<^verbatim>\<open>on_hide\<close> of the single-application wrappers polls the process; when it is alive and
  a handle other than 0 is known, \<^verbatim>\<open>minimize_window\<close> runs, which issues the minimize
  command first; otherwise nothing more happens.
\<close>

lemma on_hide_known:
  "running env \<Longrightarrow> window_id s = Some h \<Longrightarrow> h \<noteq> 0 \<Longrightarrow>
   on_hide env s = (Poll (process s) # fst (minimize_window env s), None, s) \<and>
   hd (fst (minimize_window env s)) = Run windowminimize (Some h)"
  by (simp add: on_hide_def minimize_window_def unmap_window_def truthy_def case_prod_beta
      split: sum.splits option.splits)

lemma on_hide_nothing:
  "\<not> running env \<or> window_id s = None \<or> window_id s = Some 0 \<Longrightarrow>
   on_hide env s = ([Poll (process s)], None, s)"
  by (auto simp add: on_hide_def truthy_def)

lemma class_found_multi:
  assumes "wmctrl env = Inr calculator_by_class"
  shows "multi_find_window env (calculator_app\<lparr>app_wm_class := ''Gnome-calculator''\<rparr>) =
     ([CheckOutput wmctrl_lx], Some 37748743)"
proof -
  have "find_window_by_class_least (Suc 2) env ''Gnome-calculator'' =
        ([CheckOutput wmctrl_lx], Some 37748743)"
    using assms class_line class_line_matches class_handle
    by (intro single_line_class_lookup [of _ calculator_by_class calculator_by_class])
       (simp_all add: numeral_eq_Suc del: str_contains.simps)
  then show ?thesis
    by (simp add: multi_find_window_def multi_find_window_by_class_def calculator_app_def
        numeral_eq_Suc)
qed

text \<open>
  Claim C8 fails in \<^verbatim>\<open>multi_app_tray\<close>, against the docstring of \<^verbatim>\<open>on_hide_app\<close>
  (\<open>If the window isn't found or the app isn't running, do nothing\<close>): the test whether
  the process is alive is commented out. The process 12345 of the application has exited
  and a window of its class is listed; \<^verbatim>\<open>on_hide_app\<close> minimizes and unmaps that
  window and stores its handle. \<^verbatim>\<open>on_hide\<close> of \<^verbatim>\<open>tray_wrapper\<close>, with the same answers
  of the world and the handle known, polls the process and does nothing, as the claim has
  it.
\<close>

theorem hide_app_ignores_exit:
  "app_process (calculator_app\<lparr>app_wm_class := ''Gnome-calculator''\<rparr>) = Some 12345 \<and>
   \<not> running (calm\<lparr>running := False, wmctrl := Inr calculator_by_class\<rparr>) \<and>
   on_hide_app (calm\<lparr>running := False, wmctrl := Inr calculator_by_class\<rparr>)
       (calculator_app\<lparr>app_wm_class := ''Gnome-calculator''\<rparr>) =
     ([CheckOutput wmctrl_lx, Run windowminimize (Some 37748743), XUnmap (Some 37748743)],
      None,
      calculator_app\<lparr>app_wm_class := ''Gnome-calculator'', app_window_id := Some 37748743\<rparr>) \<and>
   on_hide (calm\<lparr>running := False, wmctrl := Inr calculator_by_class\<rparr>)
       (calculator\<lparr>wm_class := Some ''Gnome-calculator'', window_id := Some 37748743\<rparr>) =
     ([Poll 12345], None,
      calculator\<lparr>wm_class := Some ''Gnome-calculator'', window_id := Some 37748743\<rparr>)"
  using class_found_multi [of "calm\<lparr>running := False, wmctrl := Inr calculator_by_class\<rparr>"]
  by (simp add: on_hide_app_def on_hide_def truthy_def run_raises_def multi_unmap_window_def
      calm_def calculator_app_def calculator_def)

section \<open>Show\<close>

text \<open>
  \<^verbatim>\<open>on_show\<close> of the single-application wrappers polls the process. When it has
  exited, \<^verbatim>\<open>launch_process\<close> runs, which starts with \<^verbatim>\<open>Popen\<close>. When it is alive and a
  handle other than 0 is known, the map command is issued and, when it was started, the
  activate command after it; an exception of either is printed. When it is alive and no
  handle, or the handle 0, is known, nothing more is done and no field changes.
\<close>

lemma on_show_dead:
  "\<not> running env \<Longrightarrow>
   on_show env s = (Poll (process s) # fst (launch_process env s), snd (launch_process env s)) \<and>
   hd (fst (launch_process env s)) = Popen (cmd s)"
  by (cases "popen env")
     (simp_all add: on_show_def case_prod_beta launch_process_failed launch_process_ok)

lemma on_show_alive:
  "running env \<Longrightarrow> window_id s = Some h \<Longrightarrow> h \<noteq> 0 \<Longrightarrow>
   xdotool_map env = Inr rc \<Longrightarrow> xdotool_activate env = Inr rc' \<Longrightarrow>
   on_show env s =
     ([Poll (process s), Run windowmap (Some h), Run windowactivate_sync (Some h)], None, s)"
  by (simp add: on_show_def truthy_def)

lemma on_show_activate_raises:
  "running env \<Longrightarrow> window_id s = Some h \<Longrightarrow> h \<noteq> 0 \<Longrightarrow>
   xdotool_map env = Inr rc \<Longrightarrow> xdotool_activate env = Inl e \<Longrightarrow>
   on_show env s =
     ([Poll (process s), Run windowmap (Some h), Run windowactivate_sync (Some h),
       Print ''Error showing window'' (Some e)], None, s)"
  by (simp add: on_show_def truthy_def)

lemma on_show_map_raises:
  "running env \<Longrightarrow> window_id s = Some h \<Longrightarrow> h \<noteq> 0 \<Longrightarrow> xdotool_map env = Inl e \<Longrightarrow>
   on_show env s =
     ([Poll (process s), Run windowmap (Some h), Print ''Error showing window'' (Some e)],
      None, s)"
  by (simp add: on_show_def truthy_def)

lemma on_show_unknown:
  "running env \<Longrightarrow> window_id s = None \<or> window_id s = Some 0 \<Longrightarrow>
   on_show env s = ([Poll (process s)], None, s)"
  by (auto simp add: on_show_def truthy_def)

lemma nothing_listed:
  "multi_find_window (calm\<lparr>xdotool_map := Inr 1, popen := Inr 23456\<rparr>)
     (calculator_app\<lparr>app_wm_class := ''Gnome-calculator''\<rparr>) = ([CheckOutput wmctrl_lx], None)"
  by (simp add: multi_find_window_def multi_find_window_by_class_def
      find_window_by_class_least_def calm_def calculator_app_def splitlines_def)

text \<open>
  Claim C7 fails in \<^verbatim>\<open>multi_app_tray\<close>, against the docstring of \<^verbatim>\<open>on_show_app\<close>
  (\<open>If it's not running, launch it\<close>): the test whether the process is alive is commented
  out. The process 12345 is alive, no handle is known and no window of the class is
  listed; \<^verbatim>\<open>on_show_app\<close> issues a map command for the missing handle, which exits with
  code 1, calls the listing tool and starts the application a second time, as process
  23456. \<^verbatim>\<open>on_show\<close> of \<^verbatim>\<open>tray_wrapper\<close>, with the same answers of the world, polls the
  process and does nothing, as the claim has it.
\<close>

theorem show_app_launches_running:
  "running (calm\<lparr>xdotool_map := Inr 1, popen := Inr 23456\<rparr>) \<and>
   app_process (calculator_app\<lparr>app_wm_class := ''Gnome-calculator''\<rparr>) = Some 12345 \<and>
   app_window_id (calculator_app\<lparr>app_wm_class := ''Gnome-calculator''\<rparr>) = None \<and>
   on_show_app (calm\<lparr>xdotool_map := Inr 1, popen := Inr 23456\<rparr>)
       (calculator_app\<lparr>app_wm_class := ''Gnome-calculator''\<rparr>) =
     ([Run windowmap None, CheckOutput wmctrl_lx, Popen [''gnome-calculator''], Sleep 1500],
      None,
      calculator_app\<lparr>app_wm_class := ''Gnome-calculator'', app_process := Some 23456\<rparr>) \<and>
   on_show (calm\<lparr>xdotool_map := Inr 1, popen := Inr 23456\<rparr>)
       (calculator\<lparr>wm_class := Some ''Gnome-calculator''\<rparr>) =
     ([Poll 12345], None, calculator\<lparr>wm_class := Some ''Gnome-calculator''\<rparr>)"
  using nothing_listed
  by (simp add: on_show_app_def show_cached_def show_found_def launch_app_def run_raises_def
      on_show_def truthy_def calm_def calculator_app_def calculator_def)

end
